theory Spec2Isabelle
  imports Complex_Main
begin

section \<open>Ecommerce backend: products, orders and pagination\<close>

text \<open>
  A shallow embedding of \<^verbatim>\<open>src/BackendEcommerce.py\<close>: the four request handlers
  \<^verbatim>\<open>create_product\<close>, \<^verbatim>\<open>list_products\<close>, \<^verbatim>\<open>create_order\<close> and
  \<^verbatim>\<open>get_user_orders\<close>, with the document store they talk to as explicit state.
  Every handler takes the state of the process and of the store and returns its
  response, or the HTTP error it raises, together with the new state.
\<close>

subsection \<open>Libraries the handlers call\<close>

text \<open>
  The handlers call into bson, the Python float type and the store's regular expression
  engine. None of these is part of the repository, so they are parameters of the model,
  collected in one record; every theorem below holds for each choice of them.
  \<^item> \<open>ObjectId\<close> is the constructor \<^verbatim>\<open>bson.ObjectId\<close> on a \<^verbatim>\<open>str\<close>: \<open>None\<close> where it
    raises \<^verbatim>\<open>InvalidId\<close>;
  \<^item> \<open>str_oid\<close> is \<^verbatim>\<open>str\<close> on an ObjectId;
  \<^item> \<open>float_of\<close> is the conversion of a Python int in \<^verbatim>\<open>float * int\<close>;
  \<^item> \<open>regex\<close> is the store's \<^verbatim>\<open>$regex\<close> match with option \<^verbatim>\<open>i\<close> on patterns and
    subjects outside the plain fragment defined below;
  \<^item> \<open>MONGODB_URL\<close> is the module constant read from the environment.
  Prices are values of a type \<open>'r\<close> with a zero, an addition and a multiplication of
  which no law is assumed, as for floating point numbers.
\<close>

record ('oid, 'r) env =
  ObjectId :: "string \<Rightarrow> 'oid option"
  str_oid :: "'oid \<Rightarrow> string"
  float_of :: "int \<Rightarrow> 'r"
  regex :: "string \<Rightarrow> string \<Rightarrow> bool"
  MONGODB_URL :: string

subsection \<open>Request and response models\<close>

type_synonym datetime = nat

record SizeInfo =
  size_str :: string
  quantity :: int

record 'r ProductCreate =
  name :: string
  price :: 'r
  sizes :: "SizeInfo list"

record PaginationInfo =
  "next" :: "string option"
  limit :: int
  previous :: "int option"

record OrderItem =
  productId :: string
  qty :: int

record OrderCreate =
  userId :: string
  items :: "OrderItem list"

text \<open>The body \<^verbatim>\<open>{"id": ...}\<close> of both create handlers.\<close>

record IdResponse =
  id_str :: string

text \<open>One entry of the product listing: the dictionary built at lines 177-182.\<close>

record 'r product_data =
  data_id :: string
  data_name :: string
  data_price :: 'r

record 'r ProductsListResponse =
  products_data :: "'r product_data list"
  products_page :: PaginationInfo

text \<open>The dictionaries built at lines 272-288.\<close>

record product_details =
  details_name :: string
  details_id :: string

record OrderDetails =
  productDetails :: product_details
  details_qty :: int

record 'r OrderData =
  order_data_id :: string
  order_data_items :: "OrderDetails list"
  total :: 'r

record 'r OrdersListResponse =
  orders_data :: "'r OrderData list"
  orders_page :: PaginationInfo

subsection \<open>Stored documents\<close>

record ('oid, 'r) product_doc =
  product_oid :: 'oid
  product_name :: string
  product_price :: 'r
  product_sizes :: "SizeInfo list"
  product_created_at :: datetime

text \<open>A line item as stored: the product id is kept as the string of the request.\<close>

record order_item_doc =
  item_productId :: string
  item_qty :: int

record 'oid order_doc =
  order_oid :: 'oid
  order_userId :: string
  order_items :: "order_item_doc list"
  order_created_at :: datetime
  order_status :: string

subsection \<open>Errors\<close>

text \<open>
  The exceptions of the libraries that the handlers can meet, the detail of an
  \<^verbatim>\<open>HTTPException\<close> (a fixed text, or \<^verbatim>\<open>str(e)\<close> of a caught exception), and the
  two ways a request fails: an \<^verbatim>\<open>HTTPException\<close> raised by the code, or the
  rejection of a query parameter by the declared \<^verbatim>\<open>Query\<close> bounds, which the
  framework answers with status 422 before the handler's body runs.
\<close>

datatype exn = InvalidId string | ServerSelectionTimeoutError | DuplicateKeyError

datatype detail = Text string | ErrorText exn

datatype http_error = HTTPException nat detail | RequestValidationError

fun status_code :: "http_error \<Rightarrow> nat" where
  "status_code (HTTPException c d) = c"
| "status_code RequestValidationError = 422"

subsection \<open>The process and the store\<close>

text \<open>
  \<open>stored_products\<close> and \<open>stored_orders\<close> are the two collections, in insertion order.
  \<open>db\<close> says that the module-level handles \<^verbatim>\<open>db\<close>, \<^verbatim>\<open>client\<close> are not \<^verbatim>\<open>None\<close>;
  \<open>reachable\<close> says that the server answers (it does not change during a request);
  \<open>issued\<close> is the sequence of commands sent to the server so far.
\<close>

datatype store_op =
  Ping | Products_insert | Products_count | Products_find | Products_find_one
  | Orders_insert | Orders_count | Orders_find

record ('oid, 'r) state =
  stored_products :: "('oid, 'r) product_doc list"
  stored_orders :: "'oid order_doc list"
  db :: bool
  reachable :: bool
  issued :: "store_op list"

definition command ::
  "store_op \<Rightarrow> ('oid, 'r) state \<Rightarrow> 'a \<Rightarrow> (exn + 'a) \<times> ('oid, 'r) state" where
  "command c st result =
     (if reachable st then Inr result else Inl ServerSelectionTimeoutError,
      st\<lparr>issued := issued st @ [c]\<rparr>)"

definition get_database ::
  "('oid, 'r) env \<Rightarrow> ('oid, 'r) state \<Rightarrow> (http_error + unit) \<times> ('oid, 'r) state" where
  "get_database rt st =
     (case command Ping st () of
        (Inl e, st') \<Rightarrow>
          (Inl (HTTPException 503
             (Text (''Database connection failed. Please ensure MongoDB is running at ''
                    @ MONGODB_URL rt))), st')
      | (Inr u, st') \<Rightarrow> (Inr (), st'))"

definition ensure_db_connection ::
  "('oid, 'r) env \<Rightarrow> ('oid, 'r) state \<Rightarrow> (http_error + unit) \<times> ('oid, 'r) state" where
  "ensure_db_connection rt st =
     (if \<not> db st then
        (case get_database rt st of
           (Inl e, st') \<Rightarrow> (Inl e, st')
         | (Inr u, st') \<Rightarrow> (Inr (), st'\<lparr>db := True\<rparr>))
      else (Inr (), st))"

subsection \<open>Pagination\<close>

text \<open>\<^verbatim>\<open>str\<close> on a Python int: the decimal digits, with a minus sign below zero.\<close>

definition digit_char :: "nat \<Rightarrow> char" where
  "digit_char d = char_of (of_char (CHR ''0'') + d)"

fun str_nat :: "nat \<Rightarrow> string" where
  "str_nat n = (if n < 10 then [digit_char n] else str_nat (n div 10) @ [digit_char (n mod 10)])"

declare str_nat.simps [simp del]

definition str_int :: "int \<Rightarrow> string" where
  "str_int i = (if i < 0 then CHR ''-'' # str_nat (nat (- i)) else str_nat (nat i))"

text \<open>The number a string of decimal digits stands for, to read \<open>str_nat\<close> back.\<close>

definition decimal_value :: "string \<Rightarrow> nat" where
  "decimal_value ds = foldl (\<lambda>a c. 10 * a + (of_char c - 48)) 0 ds"

text \<open>
  Lines 186-198 and, word for word, lines 291-304: the page block of both listings.
\<close>

definition pagination :: "int \<Rightarrow> int \<Rightarrow> int \<Rightarrow> PaginationInfo" where
  "pagination offset lmt total_count =
     (let next_offset = (if offset + lmt < total_count then Some (str_int (offset + lmt)) else None);
          previous_offset = (if offset > 0 then Some (max 0 (offset - lmt)) else None)
      in \<lparr>next = next_offset, limit = lmt, previous = previous_offset\<rparr>)"

subsection \<open>Query parameters\<close>

text \<open>
  \<^verbatim>\<open>Query(default, ge=..., le=...)\<close> of an \<^verbatim>\<open>int\<close> parameter: the default when the
  parameter is omitted, a validation error when a supplied value breaks a bound, the
  supplied value otherwise.
\<close>

definition Query ::
  "int \<Rightarrow> int option \<Rightarrow> int option \<Rightarrow> int option \<Rightarrow> http_error + int" where
  "Query dflt ge le supplied =
     (case supplied of
        None \<Rightarrow> Inr dflt
      | Some v \<Rightarrow>
          if (case ge of Some b \<Rightarrow> v < b | None \<Rightarrow> False) then Inl RequestValidationError
          else if (case le of Some b \<Rightarrow> b < v | None \<Rightarrow> False) then Inl RequestValidationError
          else Inr v)"

subsection \<open>Filters of the product listing\<close>

text \<open>
  Characters and substrings: the ASCII letters, digits and the space; ASCII lower case;
  the test that a string starts with, or contains, another.
\<close>

definition plain_char :: "char \<Rightarrow> bool" where
  "plain_char c =
     (let n = (of_char c :: nat)
      in (48 \<le> n \<and> n \<le> 57) \<or> (65 \<le> n \<and> n \<le> 90) \<or> (97 \<le> n \<and> n \<le> 122) \<or> n = 32)"

definition lower_char :: "char \<Rightarrow> char" where
  "lower_char c =
     (let n = (of_char c :: nat) in if 65 \<le> n \<and> n \<le> 90 then char_of (n + 32) else c)"

fun starts_with :: "string \<Rightarrow> string \<Rightarrow> bool" where
  "starts_with [] s = True"
| "starts_with (p # ps) [] = False"
| "starts_with (p # ps) (c # cs) = (p = c \<and> starts_with ps cs)"

fun contains :: "string \<Rightarrow> string \<Rightarrow> bool" where
  "contains pat [] = (pat = [])"
| "contains pat (c # cs) = (starts_with pat (c # cs) \<or> contains pat cs)"

text \<open>
  Modelled from the spec: the store's regular expression engine is not part of the
  repository. The spec words the name filter as a case-insensitive substring or regex
  match. On a pattern and a name made of ASCII letters, digits and spaces only, where a
  regular expression has no operator and case folding is that of ASCII, the match is
  the case-insensitive substring test below; everywhere else it is left to the
  parameter \<open>regex\<close>.
\<close>

definition regex_search_i :: "('oid, 'r) env \<Rightarrow> string \<Rightarrow> string \<Rightarrow> bool" where
  "regex_search_i rt pat subject =
     (if list_all plain_char pat \<and> list_all plain_char subject
      then contains (map lower_char pat) (map lower_char subject)
      else regex rt pat subject)"

text \<open>
  The dictionary \<^verbatim>\<open>filter_query\<close> of \<^verbatim>\<open>list_products\<close>: its two possible keys,
  \<^verbatim>\<open>"name"\<close> (with the pattern of \<^verbatim>\<open>{"$regex": name, "$options": "i"}\<close>) and
  \<^verbatim>\<open>"sizes.size"\<close>.
\<close>

record filter_query =
  name_regex :: "string option"
  sizes_size :: "string option"

text \<open>The truth value of an \<^verbatim>\<open>Optional[str]\<close>: \<^verbatim>\<open>None\<close> and the empty string are false.\<close>

fun truthy :: "string option \<Rightarrow> bool" where
  "truthy None = False"
| "truthy (Some s) = (s \<noteq> [])"

definition build_filter_query :: "string option \<Rightarrow> string option \<Rightarrow> filter_query" where
  "build_filter_query name_q size_q =
     (let filter_query = \<lparr>name_regex = None, sizes_size = None\<rparr>;
          filter_query = (if truthy name_q then filter_query\<lparr>name_regex := name_q\<rparr> else filter_query);
          filter_query = (if truthy size_q then filter_query\<lparr>sizes_size := size_q\<rparr> else filter_query)
      in filter_query)"

text \<open>
  What the store does with the filter: the name must match the pattern, and the array
  \<^verbatim>\<open>sizes\<close> must hold an element whose field \<^verbatim>\<open>size\<close> equals the given string.
\<close>

definition matches :: "('oid, 'r) env \<Rightarrow> filter_query \<Rightarrow> ('oid, 'r) product_doc \<Rightarrow> bool" where
  "matches rt fq doc =
     ((case name_regex fq of None \<Rightarrow> True | Some pat \<Rightarrow> regex_search_i rt pat (product_name doc))
      \<and> (case sizes_size fq of None \<Rightarrow> True | Some s \<Rightarrow> s \<in> set (map size_str (product_sizes doc))))"

subsection \<open>Store operations\<close>

text \<open>
  The store is not part of the repository. Its operations are modelled as the driver
  documents them, on collections kept as lists in insertion order with unique ids.
  Each operation sends one command. An unreachable server makes it raise; an insert of
  an \<^verbatim>\<open>_id\<close> that the collection already holds raises \<^verbatim>\<open>DuplicateKeyError\<close>.
  \<^verbatim>\<open>skip\<close> and \<^verbatim>\<open>limit\<close> are only ever called with \<open>0 \<le> skip\<close> and \<open>1 \<le> limit\<close>,
  which the bounds of the query parameters guarantee.
\<close>

definition products_insert_one ::
  "('oid, 'r) product_doc \<Rightarrow> ('oid, 'r) state \<Rightarrow> (exn + 'oid) \<times> ('oid, 'r) state" where
  "products_insert_one doc st =
     (case command Products_insert st () of
        (Inl e, st') \<Rightarrow> (Inl e, st')
      | (Inr u, st') \<Rightarrow>
          if product_oid doc \<in> set (map product_oid (stored_products st'))
          then (Inl DuplicateKeyError, st')
          else (Inr (product_oid doc), st'\<lparr>stored_products := stored_products st' @ [doc]\<rparr>))"

definition products_count_documents ::
  "('oid, 'r) env \<Rightarrow> filter_query \<Rightarrow> ('oid, 'r) state \<Rightarrow> (exn + int) \<times> ('oid, 'r) state" where
  "products_count_documents rt fq st =
     command Products_count st (int (length (filter (matches rt fq) (stored_products st))))"

definition products_find ::
  "('oid, 'r) env \<Rightarrow> filter_query \<Rightarrow> int \<Rightarrow> int \<Rightarrow> ('oid, 'r) state
     \<Rightarrow> (exn + ('oid, 'r) product_doc list) \<times> ('oid, 'r) state" where
  "products_find rt fq skip lmt st =
     command Products_find st
       (take (nat lmt) (drop (nat skip) (filter (matches rt fq) (stored_products st))))"

text \<open>\<^verbatim>\<open>find({"_id": {"$in": product_ids}})\<close>: every stored product whose id is listed.\<close>

definition products_find_in ::
  "'oid list \<Rightarrow> ('oid, 'r) state \<Rightarrow> (exn + ('oid, 'r) product_doc list) \<times> ('oid, 'r) state" where
  "products_find_in product_ids st =
     command Products_find st
       (filter (\<lambda>doc. product_oid doc \<in> set product_ids) (stored_products st))"

definition products_find_one ::
  "'oid \<Rightarrow> ('oid, 'r) state \<Rightarrow> (exn + ('oid, 'r) product_doc option) \<times> ('oid, 'r) state" where
  "products_find_one product_id st =
     command Products_find_one st
       (find (\<lambda>doc. product_oid doc = product_id) (stored_products st))"

definition orders_insert_one ::
  "'oid order_doc \<Rightarrow> ('oid, 'r) state \<Rightarrow> (exn + 'oid) \<times> ('oid, 'r) state" where
  "orders_insert_one doc st =
     (case command Orders_insert st () of
        (Inl e, st') \<Rightarrow> (Inl e, st')
      | (Inr u, st') \<Rightarrow>
          if order_oid doc \<in> set (map order_oid (stored_orders st'))
          then (Inl DuplicateKeyError, st')
          else (Inr (order_oid doc), st'\<lparr>stored_orders := stored_orders st' @ [doc]\<rparr>))"

definition orders_count_documents ::
  "string \<Rightarrow> ('oid, 'r) state \<Rightarrow> (exn + int) \<times> ('oid, 'r) state" where
  "orders_count_documents user_id st =
     command Orders_count st
       (int (length (filter (\<lambda>doc. order_userId doc = user_id) (stored_orders st))))"

definition orders_find ::
  "string \<Rightarrow> int \<Rightarrow> int \<Rightarrow> ('oid, 'r) state \<Rightarrow> (exn + 'oid order_doc list) \<times> ('oid, 'r) state" where
  "orders_find user_id skip lmt st =
     command Orders_find st
       (take (nat lmt) (drop (nat skip) (filter (\<lambda>doc. order_userId doc = user_id) (stored_orders st))))"

subsection \<open>The handlers\<close>

text \<open>
  \<open>new_id\<close> is the ObjectId the driver generates for the inserted document and
  \<open>utcnow\<close> the value of \<^verbatim>\<open>datetime.utcnow()\<close>; both come from outside.
\<close>

definition create_product ::
  "('oid, 'r) env \<Rightarrow> 'oid \<Rightarrow> datetime \<Rightarrow> 'r ProductCreate \<Rightarrow> ('oid, 'r) state
     \<Rightarrow> (http_error + IdResponse) \<times> ('oid, 'r) state" where
  "create_product rt new_id utcnow product st0 =
     (case ensure_db_connection rt st0 of
        (Inl e, st) \<Rightarrow> (Inl e, st)
      | (Inr u, st) \<Rightarrow>
          let sizes_data = map (\<lambda>s. \<lparr>size_str = size_str s, quantity = quantity s\<rparr>) (sizes product);
              product_doc = \<lparr>product_oid = new_id, product_name = name product,
                             product_price = price product, product_sizes = sizes_data,
                             product_created_at = utcnow\<rparr>
          in (case products_insert_one product_doc st of
                (Inl ex, st1) \<Rightarrow> (Inl (HTTPException 500 (ErrorText ex)), st1)
              | (Inr inserted_id, st1) \<Rightarrow> (Inr \<lparr>id_str = str_oid rt inserted_id\<rparr>, st1)))"

text \<open>Lines 177-182: the dictionary built from one document of the cursor.\<close>

definition product_data_of :: "('oid, 'r) env \<Rightarrow> ('oid, 'r) product_doc \<Rightarrow> 'r product_data" where
  "product_data_of rt doc =
     \<lparr>data_id = str_oid rt (product_oid doc), data_name = product_name doc,
      data_price = product_price doc\<rparr>"

definition list_products ::
  "('oid, 'r) env \<Rightarrow> string option \<Rightarrow> string option \<Rightarrow> int option \<Rightarrow> int option
     \<Rightarrow> ('oid, 'r) state \<Rightarrow> (http_error + 'r ProductsListResponse) \<times> ('oid, 'r) state" where
  "list_products rt name_q size_q limit_q offset_q st0 =
     (case Query 10 (Some 1) (Some 100) limit_q of
        Inl e \<Rightarrow> (Inl e, st0)
      | Inr lmt \<Rightarrow>
     (case Query 0 (Some 0) None offset_q of
        Inl e \<Rightarrow> (Inl e, st0)
      | Inr offset \<Rightarrow>
     (case ensure_db_connection rt st0 of
        (Inl e, st) \<Rightarrow> (Inl e, st)
      | (Inr u, st) \<Rightarrow>
     (case products_count_documents rt (build_filter_query name_q size_q) st of
        (Inl ex, st1) \<Rightarrow> (Inl (HTTPException 500 (ErrorText ex)), st1)
      | (Inr total_count, st1) \<Rightarrow>
     (case products_find rt (build_filter_query name_q size_q) offset lmt st1 of
        (Inl ex, st2) \<Rightarrow> (Inl (HTTPException 500 (ErrorText ex)), st2)
      | (Inr cursor, st2) \<Rightarrow>
          let products = map (product_data_of rt) cursor
          in (Inr \<lparr>products_data = products,
                   products_page = pagination offset lmt total_count\<rparr>, st2))))))"

text \<open>
  Line 217: the list comprehension calls \<^verbatim>\<open>ObjectId\<close> on each item in turn and stops
  at the first string it refuses.
\<close>

fun object_ids :: "('oid, 'r) env \<Rightarrow> string list \<Rightarrow> exn + 'oid list" where
  "object_ids rt [] = Inr []"
| "object_ids rt (s # ss) =
     (case ObjectId rt s of
        None \<Rightarrow> Inl (InvalidId s)
      | Some oid \<Rightarrow> (case object_ids rt ss of Inl e \<Rightarrow> Inl e | Inr oids \<Rightarrow> Inr (oid # oids)))"

definition create_order ::
  "('oid, 'r) env \<Rightarrow> 'oid \<Rightarrow> datetime \<Rightarrow> OrderCreate \<Rightarrow> ('oid, 'r) state
     \<Rightarrow> (http_error + IdResponse) \<times> ('oid, 'r) state" where
  "create_order rt new_id utcnow order st0 =
     (case ensure_db_connection rt st0 of
        (Inl e, st) \<Rightarrow> (Inl e, st)
      | (Inr u, st) \<Rightarrow>
     (case object_ids rt (map productId (items order)) of
        Inl ex \<Rightarrow> (Inl (HTTPException 500 (ErrorText ex)), st)
      | Inr product_ids \<Rightarrow>
     (case products_find_in product_ids st of
        (Inl ex, st1) \<Rightarrow> (Inl (HTTPException 500 (ErrorText ex)), st1)
      | (Inr existing_products, st1) \<Rightarrow>
          if length existing_products \<noteq> length product_ids
          then (Inl (HTTPException 400 (Text ''One or more products not found'')), st1)
          else
            let order_doc = \<lparr>order_oid = new_id, order_userId = userId order,
                             order_items = map (\<lambda>item. \<lparr>item_productId = productId item,
                                                         item_qty = qty item\<rparr>) (items order),
                             order_created_at = utcnow, order_status = ''created''\<rparr>
            in (case orders_insert_one order_doc st1 of
                  (Inl ex, st2) \<Rightarrow> (Inl (HTTPException 500 (ErrorText ex)), st2)
                | (Inr inserted_id, st2) \<Rightarrow> (Inr \<lparr>id_str = str_oid rt inserted_id\<rparr>, st2)))))"

text \<open>Lines 267-282: the loop over the items of one order, with its two accumulators.\<close>

fun items_loop ::
  "('oid, 'r::{zero,plus,times}) env \<Rightarrow> order_item_doc list \<Rightarrow> OrderDetails list \<Rightarrow> 'r
     \<Rightarrow> ('oid, 'r) state \<Rightarrow> (exn + OrderDetails list \<times> 'r) \<times> ('oid, 'r) state" where
  "items_loop rt [] order_items_acc total_amount st = (Inr (order_items_acc, total_amount), st)"
| "items_loop rt (item # rest) order_items_acc total_amount st =
     (case ObjectId rt (item_productId item) of
        None \<Rightarrow> (Inl (InvalidId (item_productId item)), st)
      | Some product_id \<Rightarrow>
     (case products_find_one product_id st of
        (Inl ex, st1) \<Rightarrow> (Inl ex, st1)
      | (Inr None, st1) \<Rightarrow> items_loop rt rest order_items_acc total_amount st1
      | (Inr (Some product), st1) \<Rightarrow>
          items_loop rt rest
            (order_items_acc @
               [\<lparr>productDetails = \<lparr>details_name = product_name product,
                                     details_id = item_productId item\<rparr>,
                 details_qty = item_qty item\<rparr>])
            (total_amount + product_price product * float_of rt (item_qty item)) st1))"

text \<open>Lines 262-289: the loop over the orders of the window.\<close>

fun orders_loop ::
  "('oid, 'r::{zero,plus,times}) env \<Rightarrow> 'oid order_doc list \<Rightarrow> 'r OrderData list
     \<Rightarrow> ('oid, 'r) state \<Rightarrow> (exn + 'r OrderData list) \<times> ('oid, 'r) state" where
  "orders_loop rt [] orders_acc st = (Inr orders_acc, st)"
| "orders_loop rt (order_doc # rest) orders_acc st =
     (case items_loop rt (order_items order_doc) [] 0 st of
        (Inl ex, st1) \<Rightarrow> (Inl ex, st1)
      | (Inr (order_items_out, total_amount), st1) \<Rightarrow>
          orders_loop rt rest
            (orders_acc @
               [\<lparr>order_data_id = str_oid rt (order_oid order_doc),
                 order_data_items = order_items_out, total = total_amount\<rparr>]) st1)"

definition get_user_orders ::
  "('oid, 'r::{zero,plus,times}) env \<Rightarrow> string \<Rightarrow> int option \<Rightarrow> int option
     \<Rightarrow> ('oid, 'r) state \<Rightarrow> (http_error + 'r OrdersListResponse) \<times> ('oid, 'r) state" where
  "get_user_orders rt user_id limit_q offset_q st0 =
     (case Query 10 (Some 1) (Some 100) limit_q of
        Inl e \<Rightarrow> (Inl e, st0)
      | Inr lmt \<Rightarrow>
     (case Query 0 (Some 0) None offset_q of
        Inl e \<Rightarrow> (Inl e, st0)
      | Inr offset \<Rightarrow>
     (case ensure_db_connection rt st0 of
        (Inl e, st) \<Rightarrow> (Inl e, st)
      | (Inr u, st) \<Rightarrow>
     (case orders_count_documents user_id st of
        (Inl ex, st1) \<Rightarrow> (Inl (HTTPException 500 (ErrorText ex)), st1)
      | (Inr total_count, st1) \<Rightarrow>
     (case orders_find user_id offset lmt st1 of
        (Inl ex, st2) \<Rightarrow> (Inl (HTTPException 500 (ErrorText ex)), st2)
      | (Inr cursor, st2) \<Rightarrow>
     (case orders_loop rt cursor [] st2 of
        (Inl ex, st3) \<Rightarrow> (Inl (HTTPException 500 (ErrorText ex)), st3)
      | (Inr orders_out, st3) \<Rightarrow>
          (Inr \<lparr>orders_data = orders_out,
                orders_page = pagination offset lmt total_count\<rparr>, st3)))))))"

subsection \<open>Notions used in the statements\<close>

text \<open>The state after \<^verbatim>\<open>ensure_db_connection\<close> has gone through.\<close>

definition after_ensure :: "('oid, 'r) state \<Rightarrow> ('oid, 'r) state" where
  "after_ensure st = (if db st then st else st\<lparr>issued := issued st @ [Ping], db := True\<rparr>)"

text \<open>
  The status of the HTTP response: that of the error, or the code the route declares
  for a normal return.
\<close>

definition response_status :: "nat \<Rightarrow> http_error + 'a \<Rightarrow> nat" where
  "response_status ok r = (case r of Inl e \<Rightarrow> status_code e | Inr x \<Rightarrow> ok)"

text \<open>The documents a product listing selects, before the projection.\<close>

definition listed_docs ::
  "('oid, 'r) env \<Rightarrow> string option \<Rightarrow> string option \<Rightarrow> int \<Rightarrow> int
     \<Rightarrow> ('oid, 'r) product_doc list \<Rightarrow> ('oid, 'r) product_doc list" where
  "listed_docs rt name_q size_q lmt offset docs =
     take (nat lmt) (drop (nat offset) (filter (matches rt (build_filter_query name_q size_q)) docs))"

text \<open>
  The order listing as the specification words it, to be compared with the loops of
  \<^verbatim>\<open>get_user_orders\<close>: a line item resolves when its product id is the id of a stored
  product; the items that resolve are kept, in order, each with its product; the total
  adds up the product's stored price times the quantity over them, from left to right
  and starting at zero.
\<close>

definition resolve ::
  "('oid, 'r) env \<Rightarrow> ('oid, 'r) product_doc list \<Rightarrow> order_item_doc \<Rightarrow> ('oid, 'r) product_doc option" where
  "resolve rt docs item =
     (case ObjectId rt (item_productId item) of
        None \<Rightarrow> None
      | Some product_id \<Rightarrow> find (\<lambda>doc. product_oid doc = product_id) docs)"

definition resolvable_items ::
  "('oid, 'r) env \<Rightarrow> ('oid, 'r) product_doc list \<Rightarrow> order_item_doc list
     \<Rightarrow> (('oid, 'r) product_doc \<times> order_item_doc) list" where
  "resolvable_items rt docs its =
     List.map_filter (\<lambda>item. map_option (\<lambda>p. (p, item)) (resolve rt docs item)) its"

definition spec_line :: "('oid, 'r) product_doc \<times> order_item_doc \<Rightarrow> OrderDetails" where
  "spec_line line =
     \<lparr>productDetails = \<lparr>details_name = product_name (fst line), details_id = item_productId (snd line)\<rparr>,
      details_qty = item_qty (snd line)\<rparr>"

definition spec_total ::
  "('oid, 'r::{zero,plus,times}) env \<Rightarrow> (('oid, 'r) product_doc \<times> order_item_doc) list \<Rightarrow> 'r" where
  "spec_total rt lines =
     foldl (\<lambda>t line. t + product_price (fst line) * float_of rt (item_qty (snd line))) 0 lines"

definition spec_order_data ::
  "('oid, 'r::{zero,plus,times}) env \<Rightarrow> ('oid, 'r) product_doc list \<Rightarrow> 'oid order_doc \<Rightarrow> 'r OrderData" where
  "spec_order_data rt docs order_doc =
     \<lparr>order_data_id = str_oid rt (order_oid order_doc),
      order_data_items = map spec_line (resolvable_items rt docs (order_items order_doc)),
      total = spec_total rt (resolvable_items rt docs (order_items order_doc))\<rparr>"

definition orders_window :: "string \<Rightarrow> int \<Rightarrow> int \<Rightarrow> 'oid order_doc list \<Rightarrow> 'oid order_doc list" where
  "orders_window user_id lmt offset docs =
     take (nat lmt) (drop (nat offset) (filter (\<lambda>doc. order_userId doc = user_id) docs))"

subsection \<open>A concrete shop\<close>

text \<open>
  One instance of the libraries and a small store, on which the statements below are
  evaluated: object ids are the strings of 24 hexadecimal digits, in lower case; prices
  are real numbers.
\<close>

definition hex_digit :: "char \<Rightarrow> bool" where
  "hex_digit c =
     (let n = (of_char c :: nat)
      in (48 \<le> n \<and> n \<le> 57) \<or> (65 \<le> n \<and> n \<le> 70) \<or> (97 \<le> n \<and> n \<le> 102))"

definition shop_env :: "(string, real) env" where
  "shop_env =
     \<lparr>ObjectId = (\<lambda>s. if length s = 24 \<and> list_all hex_digit s then Some (map lower_char s) else None),
      str_oid = (\<lambda>oid. oid),
      float_of = of_int,
      regex = (\<lambda>pat subject. False),
      MONGODB_URL = ''mongodb://localhost:27017''\<rparr>"

definition shirt_id :: string where
  "shirt_id = ''65a000000000000000000001''"

definition cap_id :: string where
  "cap_id = ''65a000000000000000000002''"

definition gone_id :: string where
  "gone_id = ''65a0000000000000000000ff''"

definition order_id :: string where
  "order_id = ''65b000000000000000000001''"

definition shirt :: "(string, real) product_doc" where
  "shirt = \<lparr>product_oid = shirt_id, product_name = ''Shirt'', product_price = 1999 / 100,
            product_sizes = [\<lparr>size_str = ''M'', quantity = 5\<rparr>], product_created_at = 1\<rparr>"

definition cap :: "(string, real) product_doc" where
  "cap = \<lparr>product_oid = cap_id, product_name = ''Cap'', product_price = 5,
          product_sizes = [\<lparr>size_str = ''S'', quantity = 2\<rparr>], product_created_at = 2\<rparr>"

definition shop :: "(string, real) state" where
  "shop = \<lparr>stored_products = [shirt, cap], stored_orders = [], db = True, reachable = True,
           issued = []\<rparr>"

text \<open>
  The shop later on: an order of user \<open>u1\<close> with three line items, of which the second
  names a product that is no longer stored.
\<close>

definition placed_order :: "string order_doc" where
  "placed_order =
     \<lparr>order_oid = order_id, order_userId = ''u1'',
      order_items = [\<lparr>item_productId = shirt_id, item_qty = 2\<rparr>,
                     \<lparr>item_productId = gone_id, item_qty = 1\<rparr>,
                     \<lparr>item_productId = cap_id, item_qty = 3\<rparr>],
      order_created_at = 7, order_status = ''created''\<rparr>"

definition shop_with_order :: "(string, real) state" where
  "shop_with_order = shop\<lparr>stored_orders := [placed_order]\<rparr>"

section \<open>Properties\<close>

subsection \<open>Connection and commands\<close>

lemma command_reachable:
  "reachable st \<Longrightarrow> command c st r = (Inr r, st\<lparr>issued := issued st @ [c]\<rparr>)"
  by (simp add: command_def)

lemma ensure_ok:
  "db st \<or> reachable st \<Longrightarrow> ensure_db_connection rt st = (Inr (), after_ensure st)"
  by (auto simp: ensure_db_connection_def after_ensure_def get_database_def command_def)

lemma after_ensure_fields [simp]:
  "stored_products (after_ensure st) = stored_products st"
  "stored_orders (after_ensure st) = stored_orders st"
  "reachable (after_ensure st) = reachable st"
  by (simp_all add: after_ensure_def)

subsection \<open>Pagination\<close>

text \<open>\<open>str_nat\<close> writes the decimal digits of its argument: reading them back gives the number.\<close>

lemma decimal_value_snoc: "decimal_value (ds @ [c]) = 10 * decimal_value ds + (of_char c - 48)"
  by (simp add: decimal_value_def)

lemma digit_char_value: "d < 10 \<Longrightarrow> of_char (digit_char d) - 48 = d"
  by (simp add: digit_char_def)

lemma str_nat_value: "decimal_value (str_nat n) = n"
proof (induction n rule: str_nat.induct)
  case (1 n)
  show ?case
  proof (cases "n < 10")
    case True
    then show ?thesis
      by (simp add: str_nat.simps [of n] decimal_value_def digit_char_value)
  next
    case False
    with 1 have "decimal_value (str_nat (n div 10)) = n div 10" by simp
    with False show ?thesis
      by (simp add: str_nat.simps [of n] decimal_value_snoc digit_char_value)
  qed
qed

text \<open>
  C3. For a limit between 1 and 100, an offset of at least 0 and a total count of at
  least 0, the page block has \<open>next\<close> exactly when \<open>offset + limit < total_count\<close>, and
  then it is \<open>offset + limit\<close> written as a string; it has \<open>previous\<close> exactly when
  \<open>0 < offset\<close>, and then it is \<open>max 0 (offset - limit)\<close>; and \<open>limit\<close> is the limit given.
  The block is a function of the three numbers alone: it reads and changes no state, and
  it has no error case.
\<close>

theorem pagination_spec:
  assumes "1 \<le> lmt" and "lmt \<le> 100" and "0 \<le> offset" and "0 \<le> total_count"
  shows "(next (pagination offset lmt total_count) \<noteq> None \<longleftrightarrow> offset + lmt < total_count)
    \<and> (offset + lmt < total_count \<longrightarrow>
         next (pagination offset lmt total_count) = Some (str_int (offset + lmt)))
    \<and> (previous (pagination offset lmt total_count) \<noteq> None \<longleftrightarrow> 0 < offset)
    \<and> (0 < offset \<longrightarrow>
         previous (pagination offset lmt total_count) = Some (max 0 (offset - lmt)))
    \<and> limit (pagination offset lmt total_count) = lmt"
  by (simp add: pagination_def)

lemma str_int_20: "str_int 20 = ''20''"
  by code_simp

theorem pagination_spec_witness:
  "(1::int) \<le> 10 \<and> (10::int) \<le> 100 \<and> (0::int) \<le> 10 \<and> (0::int) \<le> 25
   \<and> next (pagination 10 10 25) = Some ''20''
   \<and> previous (pagination 10 10 25) = Some 0
   \<and> limit (pagination 10 10 25) = 10"
  using pagination_spec [of 10 10 25] str_int_20
  by simp

subsection \<open>Order creation\<close>

lemmas shop_simps =
  shop_env_def hex_digit_def lower_char_def shop_def shirt_def cap_def
  shirt_id_def cap_id_def gone_id_def order_id_def

lemma shop_ids:
  "ObjectId shop_env shirt_id = Some shirt_id"
  "ObjectId shop_env cap_id = Some cap_id"
  "ObjectId shop_env gone_id = Some gone_id"
  "ObjectId shop_env ''xyz'' = None"
  by (simp_all add: shop_env_def shirt_id_def cap_id_def gone_id_def hex_digit_def lower_char_def)

text \<open>
  The existence check compares the number of products found with the number of ids in
  the request, duplicates counted. Product ids are unique in the collection, so the two
  numbers agree exactly when the requested ids are pairwise different and all stored.
\<close>

lemma found_length:
  assumes "distinct (map f xs)"
  shows "length (filter (\<lambda>d. f d \<in> set ids) xs) = card (set ids \<inter> f ` set xs)"
proof -
  have "distinct (map f (filter (\<lambda>d. f d \<in> set ids) xs))"
    using assms by (rule distinct_map_filter)
  then have "card (set (map f (filter (\<lambda>d. f d \<in> set ids) xs)))
      = length (map f (filter (\<lambda>d. f d \<in> set ids) xs))"
    by (rule distinct_card)
  moreover have "set (map f (filter (\<lambda>d. f d \<in> set ids) xs)) = set ids \<inter> f ` set xs"
    by auto
  ultimately show ?thesis by simp
qed

lemma existence_check_iff:
  assumes "distinct (map f xs)"
  shows "length (filter (\<lambda>d. f d \<in> set ids) xs) = length ids
     \<longleftrightarrow> distinct ids \<and> set ids \<subseteq> f ` set xs"
proof
  assume eq: "length (filter (\<lambda>d. f d \<in> set ids) xs) = length ids"
  have le1: "card (set ids \<inter> f ` set xs) \<le> card (set ids)"
    by (simp add: card_mono)
  have le2: "card (set ids) \<le> length ids" by (rule card_length)
  from eq have c: "card (set ids \<inter> f ` set xs) = length ids"
    using found_length [OF assms] by simp
  with le1 le2 have "card (set ids) = length ids" and "card (set ids \<inter> f ` set xs) = card (set ids)"
    by simp_all
  then have "distinct ids" and "set ids \<inter> f ` set xs = set ids"
    by (simp_all add: card_distinct card_subset_eq)
  then show "distinct ids \<and> set ids \<subseteq> f ` set xs" by auto
next
  assume "distinct ids \<and> set ids \<subseteq> f ` set xs"
  then have "set ids \<inter> f ` set xs = set ids" and "card (set ids) = length ids"
    by (auto simp: distinct_card)
  then show "length (filter (\<lambda>d. f d \<in> set ids) xs) = length ids"
    using found_length [OF assms, of ids] by simp
qed

lemma object_ids_Inl:
  "object_ids rt ss = Inl e \<Longrightarrow> \<exists>s \<in> set ss. ObjectId rt s = None \<and> e = InvalidId s"
  by (induction ss arbitrary: e) (auto split: option.splits sum.splits)

lemma object_ids_Inr_all:
  "object_ids rt ss = Inr ids \<Longrightarrow> \<forall>s \<in> set ss. ObjectId rt s \<noteq> None"
  by (induction ss arbitrary: ids) (auto split: option.splits sum.splits)

lemma object_ids_fail:
  assumes "\<exists>s \<in> set ss. ObjectId rt s = None"
  shows "\<exists>s \<in> set ss. ObjectId rt s = None \<and> object_ids rt ss = Inl (InvalidId s)"
proof (cases "object_ids rt ss")
  case (Inl e)
  then show ?thesis using object_ids_Inl [OF Inl] by auto
next
  case (Inr ids)
  then show ?thesis using object_ids_Inr_all [OF Inr] assms by auto
qed

text \<open>So a request that repeats a product id is refused, whether or not the product is stored.\<close>

lemma create_order_repeated_id:
  assumes "reachable st0"
    and "distinct (map product_oid (stored_products st0))"
    and "object_ids rt (map productId (items order)) = Inr product_ids"
    and "\<not> distinct product_ids"
  shows "create_order rt new_id utcnow order st0 =
      (Inl (HTTPException 400 (Text ''One or more products not found'')),
       (after_ensure st0)\<lparr>issued := issued (after_ensure st0) @ [Products_find]\<rparr>)"
proof -
  have ne: "length (filter (\<lambda>doc. product_oid doc \<in> set product_ids) (stored_products st0))
      \<noteq> length product_ids"
    using existence_check_iff [OF assms(2), of product_ids] assms(4) by simp
  show ?thesis
    using assms(1,3) ne
    by (simp add: create_order_def ensure_ok command_reachable products_find_in_def)
qed

text \<open>
  C1. The claim: a request that names an existing product twice succeeds and the order
  keeps both line items. The code at that input: the shirt is stored, the request names
  it in two line items, one product is found for two requested ids, and the request is
  refused with status 400 and the detail that one or more products were not found.
  Nothing is inserted.
\<close>

theorem create_order_duplicate_rejected:
  "create_order shop_env order_id 7
     \<lparr>userId = ''u1'', items = [\<lparr>productId = shirt_id, qty = 1\<rparr>, \<lparr>productId = shirt_id, qty = 2\<rparr>]\<rparr> shop
   = (Inl (HTTPException 400 (Text ''One or more products not found'')),
      shop\<lparr>issued := [Products_find]\<rparr>)"
  by (simp add: create_order_def ensure_db_connection_def products_find_in_def command_def
      shop_env_def hex_digit_def lower_char_def shop_def shirt_def cap_def shirt_id_def cap_id_def)

text \<open>
  C2, as the code has it. When some item of the request has a product id that
  \<open>ObjectId\<close> refuses, and the connection is there, \<open>create_order\<close> fails with status
  500, the detail being the text of the \<open>InvalidId\<close> error of such an id. The state is
  the one left by \<open>ensure_db_connection\<close>: no find and no insert has been sent to the
  store, and the orders are unchanged.
\<close>

theorem create_order_malformed_id:
  assumes "db st0 \<or> reachable st0"
    and "\<exists>item \<in> set (items order). ObjectId rt (productId item) = None"
  shows "\<exists>s \<in> set (map productId (items order)). ObjectId rt s = None \<and>
      create_order rt new_id utcnow order st0 =
        (Inl (HTTPException 500 (ErrorText (InvalidId s))), after_ensure st0)
      \<and> stored_orders (after_ensure st0) = stored_orders st0
      \<and> issued (after_ensure st0) = (if db st0 then issued st0 else issued st0 @ [Ping])"
proof -
  from assms(2) have "\<exists>s \<in> set (map productId (items order)). ObjectId rt s = None"
    by auto
  then obtain s where s: "s \<in> set (map productId (items order))" "ObjectId rt s = None"
    "object_ids rt (map productId (items order)) = Inl (InvalidId s)"
    using object_ids_fail by blast
  have "create_order rt new_id utcnow order st0 =
        (Inl (HTTPException 500 (ErrorText (InvalidId s))), after_ensure st0)"
    using assms(1) s(3) by (simp add: create_order_def ensure_ok)
  with s(1,2) show ?thesis by (auto simp: after_ensure_def)
qed

theorem create_order_malformed_id_witness:
  "(db shop \<or> reachable shop)
   \<and> ObjectId shop_env ''xyz'' = None
   \<and> create_order shop_env order_id 7
        \<lparr>userId = ''u1'', items = [\<lparr>productId = shirt_id, qty = 1\<rparr>, \<lparr>productId = ''xyz'', qty = 1\<rparr>]\<rparr> shop
       = (Inl (HTTPException 500 (ErrorText (InvalidId ''xyz''))), shop)"
proof -
  have h1: "db shop \<or> reachable shop" by (simp add: shop_def)
  have h2: "\<exists>item \<in> set (items \<lparr>userId = ''u1'', items = [\<lparr>productId = shirt_id, qty = 1\<rparr>, \<lparr>productId = ''xyz'', qty = 1\<rparr>]\<rparr>).
       ObjectId shop_env (productId item) = None" by (simp add: shop_ids)
  from create_order_malformed_id [OF h1 h2, of order_id 7] h1
  show ?thesis by (auto simp: shop_ids after_ensure_def shop_def)
qed

text \<open>
  C2 as stated asks for status 400. At the request with the product id \<open>xyz\<close> the
  response has status 500.
\<close>

theorem create_order_malformed_id_counterexample:
  "ObjectId shop_env ''xyz'' = None
   \<and> response_status 201 (fst (create_order shop_env order_id 7
        \<lparr>userId = ''u1'', items = [\<lparr>productId = ''xyz'', qty = 1\<rparr>]\<rparr> shop)) = 500"
  by (simp add: create_order_def ensure_db_connection_def response_status_def shop_ids shop_def)

text \<open>
  C4, as the code has it. When the store is reachable, every product id of the request is
  well-formed and at least one of them is not the id of a stored product, \<open>create_order\<close>
  fails with status 400 and the detail \<open>One or more products not found\<close>. The only
  command sent after the connection check is the find of the existence check: no insert
  is sent, and both collections are unchanged.
\<close>

theorem create_order_unknown_product:
  assumes "reachable st0"
    and "distinct (map product_oid (stored_products st0))"
    and "object_ids rt (map productId (items order)) = Inr product_ids"
    and "\<exists>pid \<in> set product_ids. pid \<notin> set (map product_oid (stored_products st0))"
  shows "create_order rt new_id utcnow order st0 =
      (Inl (HTTPException 400 (Text ''One or more products not found'')),
       (after_ensure st0)\<lparr>issued := issued (after_ensure st0) @ [Products_find]\<rparr>)
    \<and> stored_orders (snd (create_order rt new_id utcnow order st0)) = stored_orders st0
    \<and> stored_products (snd (create_order rt new_id utcnow order st0)) = stored_products st0"
proof -
  have "\<not> set product_ids \<subseteq> product_oid ` set (stored_products st0)"
    using assms(4) by auto
  then have ne: "length (filter (\<lambda>doc. product_oid doc \<in> set product_ids) (stored_products st0))
      \<noteq> length product_ids"
    using existence_check_iff [OF assms(2), of product_ids] by simp
  have "create_order rt new_id utcnow order st0 =
      (Inl (HTTPException 400 (Text ''One or more products not found'')),
       (after_ensure st0)\<lparr>issued := issued (after_ensure st0) @ [Products_find]\<rparr>)"
    using assms(1,3) ne
    by (simp add: create_order_def ensure_ok command_reachable products_find_in_def)
  then show ?thesis by simp
qed

theorem create_order_unknown_product_witness:
  "reachable shop \<and> distinct (map product_oid (stored_products shop))
   \<and> object_ids shop_env (map productId [\<lparr>productId = shirt_id, qty = 1\<rparr>, \<lparr>productId = gone_id, qty = 1\<rparr>])
       = Inr [shirt_id, gone_id]
   \<and> gone_id \<notin> set (map product_oid (stored_products shop))
   \<and> create_order shop_env order_id 7
        \<lparr>userId = ''u1'', items = [\<lparr>productId = shirt_id, qty = 1\<rparr>, \<lparr>productId = gone_id, qty = 1\<rparr>]\<rparr> shop
       = (Inl (HTTPException 400 (Text ''One or more products not found'')),
          shop\<lparr>issued := [Products_find]\<rparr>)"
proof -
  have h1: "reachable shop" by (simp add: shop_def)
  have h2: "distinct (map product_oid (stored_products shop))" by (simp add: shop_simps)
  have h3: "object_ids shop_env (map productId (items
       \<lparr>userId = ''u1'', items = [\<lparr>productId = shirt_id, qty = 1\<rparr>, \<lparr>productId = gone_id, qty = 1\<rparr>]\<rparr>))
       = Inr [shirt_id, gone_id]" by (simp add: shop_ids)
  have h4: "gone_id \<notin> set (map product_oid (stored_products shop))" by (simp add: shop_simps)
  then have h5: "\<exists>pid \<in> set [shirt_id, gone_id]. pid \<notin> set (map product_oid (stored_products shop))"
    by simp
  from create_order_unknown_product [OF h1 h2 h3 h5, of order_id 7] h1 h2 h3 h4
  show ?thesis by (simp add: shop_def after_ensure_def)
qed

text \<open>
  C4 as stated covers every request in which some well-formed product id is unknown. At
  the request with one such id and the malformed id \<open>xyz\<close> the response has status 500,
  not 400: the ids are all converted before the existence check.
\<close>

theorem create_order_unknown_product_counterexample:
  "ObjectId shop_env gone_id = Some gone_id
   \<and> gone_id \<notin> set (map product_oid (stored_products shop))
   \<and> response_status 201 (fst (create_order shop_env order_id 7
        \<lparr>userId = ''u1'', items = [\<lparr>productId = gone_id, qty = 1\<rparr>, \<lparr>productId = ''xyz'', qty = 1\<rparr>]\<rparr> shop)) = 500"
  by (simp add: create_order_def ensure_db_connection_def response_status_def
        shop_env_def hex_digit_def lower_char_def shop_def
        shirt_def cap_def shirt_id_def cap_id_def gone_id_def)

text \<open>
  C8. Whenever \<open>create_order\<close> succeeds, the orders collection is the former one followed
  by one new document: its status is \<open>created\<close>, its timestamp the current time, its user
  id that of the request, and its items the pairs of product id and quantity of the
  request, in the order of the request. An order document and its line items have no
  field for a price, and neither has an item of the request. The response carries the
  string of the generated id.
\<close>

theorem create_order_document:
  assumes "create_order rt new_id utcnow order st0 = (Inr resp, st')"
  shows "stored_orders st' = stored_orders st0 @
           [\<lparr>order_oid = new_id, order_userId = userId order,
             order_items = map (\<lambda>item. \<lparr>item_productId = productId item, item_qty = qty item\<rparr>) (items order),
             order_created_at = utcnow, order_status = ''created''\<rparr>]
         \<and> id_str resp = str_oid rt new_id
         \<and> stored_products st' = stored_products st0"
  using assms
  by (auto simp: create_order_def ensure_db_connection_def get_database_def command_def
        products_find_in_def orders_insert_one_def Let_def
      split: if_splits sum.splits prod.splits)

lemma shop_order_created:
  "create_order shop_env order_id 7
     \<lparr>userId = ''u1'', items = [\<lparr>productId = shirt_id, qty = 2\<rparr>, \<lparr>productId = cap_id, qty = 3\<rparr>]\<rparr> shop
   = (Inr \<lparr>id_str = order_id\<rparr>,
      shop\<lparr>issued := [Products_find, Orders_insert],
           stored_orders :=
             [\<lparr>order_oid = order_id, order_userId = ''u1'',
               order_items = [\<lparr>item_productId = shirt_id, item_qty = 2\<rparr>,
                              \<lparr>item_productId = cap_id, item_qty = 3\<rparr>],
               order_created_at = 7, order_status = ''created''\<rparr>]\<rparr>)"
  by (simp add: create_order_def ensure_db_connection_def products_find_in_def
        orders_insert_one_def command_def shop_simps)

theorem create_order_document_witness:
  "create_order shop_env order_id 7
     \<lparr>userId = ''u1'', items = [\<lparr>productId = shirt_id, qty = 2\<rparr>, \<lparr>productId = cap_id, qty = 3\<rparr>]\<rparr> shop
   = (Inr \<lparr>id_str = order_id\<rparr>,
      shop\<lparr>issued := [Products_find, Orders_insert],
           stored_orders :=
             [\<lparr>order_oid = order_id, order_userId = ''u1'',
               order_items = [\<lparr>item_productId = shirt_id, item_qty = 2\<rparr>,
                              \<lparr>item_productId = cap_id, item_qty = 3\<rparr>],
               order_created_at = 7, order_status = ''created''\<rparr>]\<rparr>)
   \<and> stored_orders (shop\<lparr>issued := [Products_find, Orders_insert],
           stored_orders :=
             [\<lparr>order_oid = order_id, order_userId = ''u1'',
               order_items = [\<lparr>item_productId = shirt_id, item_qty = 2\<rparr>,
                              \<lparr>item_productId = cap_id, item_qty = 3\<rparr>],
               order_created_at = 7, order_status = ''created''\<rparr>]\<rparr>)
     = stored_orders shop @
       [\<lparr>order_oid = order_id, order_userId = ''u1'',
         order_items = [\<lparr>item_productId = shirt_id, item_qty = 2\<rparr>,
                        \<lparr>item_productId = cap_id, item_qty = 3\<rparr>],
         order_created_at = 7, order_status = ''created''\<rparr>]"
  using create_order_document [OF shop_order_created] shop_order_created
  by simp

text \<open>
  C9. A request with an empty list of items succeeds, when the store is reachable and
  the generated id is new to the orders collection: the existence check finds zero
  products for zero ids, an order with no items is inserted, and the string of the
  generated id is returned.
\<close>

theorem create_order_empty_items:
  assumes "reachable st0" and "items order = []"
    and "new_id \<notin> set (map order_oid (stored_orders st0))"
  shows "create_order rt new_id utcnow order st0 =
    (Inr \<lparr>id_str = str_oid rt new_id\<rparr>,
     (after_ensure st0)\<lparr>issued := issued (after_ensure st0) @ [Products_find, Orders_insert],
        stored_orders := stored_orders st0 @
          [\<lparr>order_oid = new_id, order_userId = userId order, order_items = [],
            order_created_at = utcnow, order_status = ''created''\<rparr>]\<rparr>)"
  using assms
  by (simp add: create_order_def ensure_ok command_reachable products_find_in_def orders_insert_one_def)

theorem create_order_empty_items_witness:
  "reachable shop \<and> items \<lparr>userId = ''u1'', items = []\<rparr> = []
   \<and> order_id \<notin> set (map order_oid (stored_orders shop))
   \<and> create_order shop_env order_id 7 \<lparr>userId = ''u1'', items = []\<rparr> shop =
       (Inr \<lparr>id_str = order_id\<rparr>,
        shop\<lparr>issued := [Products_find, Orders_insert],
             stored_orders := [\<lparr>order_oid = order_id, order_userId = ''u1'', order_items = [],
                                order_created_at = 7, order_status = ''created''\<rparr>]\<rparr>)"
  using create_order_empty_items [of shop "\<lparr>userId = ''u1'', items = []\<rparr>" order_id shop_env 7]
  by (simp add: shop_def shop_env_def after_ensure_def)

subsection \<open>Query parameters\<close>

lemma Query_limit_bounds:
  "Query 10 (Some 1) (Some 100) limit_q = Inr lmt \<Longrightarrow> 1 \<le> lmt \<and> lmt \<le> 100"
  by (auto simp: Query_def split: option.splits if_splits)

lemma Query_offset_bounds:
  "Query 0 (Some 0) None offset_q = Inr offset \<Longrightarrow> 0 \<le> offset"
  by (auto simp: Query_def split: option.splits if_splits)

text \<open>
  C10. In both listings an omitted \<open>limit\<close> is 10 and an omitted \<open>offset\<close> is 0. A
  supplied limit below 1 or above 100, or a supplied offset below 0, is refused with a
  validation error (status 422) and the state untouched, whatever the other parameters
  are: the value is not replaced by a bound. Values within the bounds are passed on as
  they are.
\<close>

theorem query_defaults_and_bounds:
  "list_products rt name_q size_q None offset_q st = list_products rt name_q size_q (Some 10) offset_q st
   \<and> list_products rt name_q size_q limit_q None st = list_products rt name_q size_q limit_q (Some 0) st
   \<and> get_user_orders rt user_id None offset_q st = get_user_orders rt user_id (Some 10) offset_q st
   \<and> get_user_orders rt user_id limit_q None st = get_user_orders rt user_id limit_q (Some 0) st
   \<and> (v < 1 \<or> 100 < v \<longrightarrow>
        list_products rt name_q size_q (Some v) offset_q st = (Inl RequestValidationError, st)
        \<and> get_user_orders rt user_id (Some v) offset_q st = (Inl RequestValidationError, st))
   \<and> (w < 0 \<longrightarrow>
        list_products rt name_q size_q limit_q (Some w) st = (Inl RequestValidationError, st)
        \<and> get_user_orders rt user_id limit_q (Some w) st = (Inl RequestValidationError, st))
   \<and> (1 \<le> a \<and> a \<le> 100 \<longrightarrow> Query 10 (Some 1) (Some 100) (Some a) = Inr a)
   \<and> (0 \<le> b \<longrightarrow> Query 0 (Some 0) None (Some b) = Inr b)
   \<and> status_code RequestValidationError = 422"
  by (auto simp: list_products_def get_user_orders_def Query_def split: option.splits sum.splits)

theorem query_defaults_and_bounds_witness:
  "list_products shop_env None None None None shop = list_products shop_env None None (Some 10) None shop
   \<and> list_products shop_env None None None None shop = list_products shop_env None None None (Some 0) shop
   \<and> get_user_orders shop_env ''u1'' None None shop = get_user_orders shop_env ''u1'' (Some 10) None shop
   \<and> get_user_orders shop_env ''u1'' None None shop = get_user_orders shop_env ''u1'' None (Some 0) shop
   \<and> ((101::int) < 1 \<or> (100::int) < 101)
   \<and> list_products shop_env None None (Some 101) None shop = (Inl RequestValidationError, shop)
   \<and> get_user_orders shop_env ''u1'' (Some 101) None shop = (Inl RequestValidationError, shop)
   \<and> (- 1 :: int) < 0
   \<and> list_products shop_env None None None (Some (- 1)) shop = (Inl RequestValidationError, shop)
   \<and> get_user_orders shop_env ''u1'' None (Some (- 1)) shop = (Inl RequestValidationError, shop)
   \<and> Query 10 (Some 1) (Some 100) (Some 100) = Inr 100
   \<and> Query 0 (Some 0) None (Some 250) = Inr 250"
proof -
  have h: "(101::int) < 1 \<or> (100::int) < 101" "(- 1 :: int) < 0"
    "(1::int) \<le> 100 \<and> (100::int) \<le> 100" "(0::int) \<le> 250"
    by simp_all
  from h query_defaults_and_bounds [where rt = shop_env and name_q = None and size_q = None
      and limit_q = None and offset_q = None and st = shop and user_id = "''u1''"
      and v = 101 and w = "- 1" and a = 100 and b = 250]
  show ?thesis by blast
qed

subsection \<open>Order listing\<close>

lemma command_snd [simp]:
  "stored_products (snd (command c st r)) = stored_products st"
  "stored_orders (snd (command c st r)) = stored_orders st"
  "reachable (snd (command c st r)) = reachable st"
  by (simp_all add: command_def)

lemma find_one_cases:
  "products_find_one pid st =
     (if reachable st then Inr (find (\<lambda>doc. product_oid doc = pid) (stored_products st))
      else Inl ServerSelectionTimeoutError,
      st\<lparr>issued := issued st @ [Products_find_one]\<rparr>)"
  by (simp add: products_find_one_def command_def)

lemma resolvable_items_Nil [simp]: "resolvable_items rt docs [] = []"
  by (simp add: resolvable_items_def)

lemma resolvable_items_Cons:
  "resolvable_items rt docs (item # its) =
     (case resolve rt docs item of
        None \<Rightarrow> resolvable_items rt docs its
      | Some p \<Rightarrow> (p, item) # resolvable_items rt docs its)"
  by (simp add: resolvable_items_def split: option.splits)

lemma items_loop_preserves:
  "stored_products (snd (items_loop rt its acc tot st)) = stored_products st
   \<and> stored_orders (snd (items_loop rt its acc tot st)) = stored_orders st
   \<and> reachable (snd (items_loop rt its acc tot st)) = reachable st"
  by (induction its arbitrary: acc tot st)
     (auto simp: find_one_cases split: option.splits)

text \<open>
  When the loop over the items of an order comes to its end, the accumulators hold what
  the specification says: the lines of the items that resolve, appended in order, and
  their amounts added to the total from left to right.
\<close>

lemma items_loop_Inr:
  "items_loop rt its acc tot st = (Inr (out, t), st') \<Longrightarrow>
     out = acc @ map spec_line (resolvable_items rt (stored_products st) its)
   \<and> t = foldl (\<lambda>t line. t + product_price (fst line) * float_of rt (item_qty (snd line))) tot
           (resolvable_items rt (stored_products st) its)"
proof (induction its arbitrary: acc tot st)
  case Nil
  then show ?case by simp
next
  case (Cons item its)
  from Cons.prems obtain product_id where pid: "ObjectId rt (item_productId item) = Some product_id"
    by (cases "ObjectId rt (item_productId item)") auto
  from Cons.prems pid have r: "reachable st"
    by (cases "reachable st") (auto simp: find_one_cases)
  let ?st1 = "st\<lparr>issued := issued st @ [Products_find_one]\<rparr>"
  show ?case
  proof (cases "find (\<lambda>doc. product_oid doc = product_id) (stored_products st)")
    case None
    with Cons.prems pid r have "items_loop rt its acc tot ?st1 = (Inr (out, t), st')"
      by (simp add: find_one_cases)
    from Cons.IH [OF this] None pid show ?thesis
      by (simp add: resolvable_items_Cons resolve_def)
  next
    case (Some product)
    with Cons.prems pid r have "items_loop rt its
        (acc @ [\<lparr>productDetails = \<lparr>details_name = product_name product,
                                     details_id = item_productId item\<rparr>,
                 details_qty = item_qty item\<rparr>])
        (tot + product_price product * float_of rt (item_qty item)) ?st1 = (Inr (out, t), st')"
      by (simp add: find_one_cases)
    from Cons.IH [OF this] Some pid show ?thesis
      by (simp add: resolvable_items_Cons resolve_def spec_line_def)
  qed
qed

lemma items_loop_total:
  "reachable st \<Longrightarrow> \<forall>item \<in> set its. ObjectId rt (item_productId item) \<noteq> None \<Longrightarrow>
   \<exists>res. fst (items_loop rt its acc tot st) = Inr res"
  by (induction its arbitrary: acc tot st)
     (auto simp: find_one_cases split: option.splits)

lemma orders_loop_preserves:
  "stored_products (snd (orders_loop rt ords acc st)) = stored_products st
   \<and> stored_orders (snd (orders_loop rt ords acc st)) = stored_orders st
   \<and> reachable (snd (orders_loop rt ords acc st)) = reachable st"
proof (induction ords arbitrary: acc st)
  case Nil
  then show ?case by simp
next
  case (Cons order_doc ords)
  show ?case
  proof (cases "items_loop rt (order_items order_doc) [] 0 st")
    case (Pair res st1)
    with items_loop_preserves [of rt "order_items order_doc" "[]" 0 st]
    have p: "stored_products st1 = stored_products st" "stored_orders st1 = stored_orders st"
      "reachable st1 = reachable st" by simp_all
    show ?thesis
    proof (cases res)
      case (Inl ex)
      with Pair p show ?thesis by simp
    next
      case (Inr r)
      with Pair p Cons.IH show ?thesis by (cases r) simp
    qed
  qed
qed

lemma orders_loop_Inr:
  "orders_loop rt ords acc st = (Inr out, st') \<Longrightarrow>
     out = acc @ map (spec_order_data rt (stored_products st)) ords"
proof (induction ords arbitrary: acc st)
  case Nil
  then show ?case by simp
next
  case (Cons order_doc ords)
  obtain res st1 where il: "items_loop rt (order_items order_doc) [] 0 st = (res, st1)"
    by (cases "items_loop rt (order_items order_doc) [] 0 st")
  with Cons.prems obtain lines t where res: "res = Inr (lines, t)"
    by (cases res) auto
  from items_loop_preserves [of rt "order_items order_doc" "[]" 0 st] il
  have p: "stored_products st1 = stored_products st" by simp
  from items_loop_Inr [OF il [unfolded res]]
  have lt: "lines = map spec_line (resolvable_items rt (stored_products st) (order_items order_doc))"
    "t = spec_total rt (resolvable_items rt (stored_products st) (order_items order_doc))"
    by (simp_all add: spec_total_def)
  from Cons.prems il res have "orders_loop rt ords
      (acc @ [\<lparr>order_data_id = str_oid rt (order_oid order_doc),
                order_data_items = lines, total = t\<rparr>]) st1 = (Inr out, st')"
    by simp
  from Cons.IH [OF this] p lt show ?case
    by (simp add: spec_order_data_def)
qed

lemma orders_loop_total:
  "reachable st \<Longrightarrow>
   \<forall>order_doc \<in> set ords. \<forall>item \<in> set (order_items order_doc). ObjectId rt (item_productId item) \<noteq> None \<Longrightarrow>
   \<exists>out. fst (orders_loop rt ords acc st) = Inr out"
proof (induction ords arbitrary: acc st)
  case Nil
  then show ?case by simp
next
  case (Cons order_doc ords)
  obtain res st1 where il: "items_loop rt (order_items order_doc) [] 0 st = (res, st1)"
    by (cases "items_loop rt (order_items order_doc) [] 0 st")
  from items_loop_total [of st "order_items order_doc" rt "[]" 0] Cons.prems il
  obtain r where res: "res = Inr r" by auto
  from items_loop_preserves [of rt "order_items order_doc" "[]" 0 st] il Cons.prems(1)
  have "reachable st1" by simp
  from Cons.IH [OF this] Cons.prems(2) il res show ?case
    by (cases r) simp
qed

lemma resolvable_items_snd:
  "map snd (resolvable_items rt docs its) = filter (\<lambda>item. resolve rt docs item \<noteq> None) its"
  by (induction its) (auto simp: resolvable_items_Cons split: option.splits)

lemma resolvable_items_fst:
  "(p, item) \<in> set (resolvable_items rt docs its) \<Longrightarrow> resolve rt docs item = Some p \<and> item \<in> set its"
  by (induction its) (auto simp: resolvable_items_Cons split: option.splits)

text \<open>
  Where addition is associative with zero as its unit, the total of the specification is
  the sum of the amounts.
\<close>

lemma spec_total_sum_list:
  fixes rt :: "('oid, 'r::{monoid_add,times}) env"
  shows "spec_total rt lines =
    sum_list (map (\<lambda>line. product_price (fst line) * float_of rt (item_qty (snd line))) lines)"
proof -
  have "foldl (\<lambda>t line. t + product_price (fst line) * float_of rt (item_qty (snd line))) a lines
      = a + sum_list (map (\<lambda>line. product_price (fst line) * float_of rt (item_qty (snd line))) lines)"
    for a
    by (induction lines arbitrary: a) (simp_all add: add.assoc)
  from this [of 0] show ?thesis by (simp add: spec_total_def)
qed

lemma get_user_orders_unfold:
  assumes "Query 10 (Some 1) (Some 100) limit_q = Inr lmt"
    and "Query 0 (Some 0) None offset_q = Inr offset"
    and "reachable st0"
  shows "get_user_orders rt user_id limit_q offset_q st0 =
    (case orders_loop rt (orders_window user_id lmt offset (stored_orders st0)) []
            ((after_ensure st0)\<lparr>issued := issued (after_ensure st0) @ [Orders_count, Orders_find]\<rparr>) of
       (Inl ex, st3) \<Rightarrow> (Inl (HTTPException 500 (ErrorText ex)), st3)
     | (Inr orders_out, st3) \<Rightarrow>
         (Inr \<lparr>orders_data = orders_out,
               orders_page = pagination offset lmt
                 (int (length (filter (\<lambda>doc. order_userId doc = user_id) (stored_orders st0))))\<rparr>, st3))"
  using assms
  by (simp add: get_user_orders_def ensure_ok command_reachable orders_count_documents_def
        orders_find_def orders_window_def)

lemma get_user_orders_Inr:
  assumes "Query 10 (Some 1) (Some 100) limit_q = Inr lmt"
    and "Query 0 (Some 0) None offset_q = Inr offset"
    and "fst (get_user_orders rt user_id limit_q offset_q st0) = Inr resp"
  shows "resp =
     \<lparr>orders_data = map (spec_order_data rt (stored_products st0))
                        (orders_window user_id lmt offset (stored_orders st0)),
      orders_page = pagination offset lmt
        (int (length (filter (\<lambda>doc. order_userId doc = user_id) (stored_orders st0))))\<rparr>"
proof -
  have r: "reachable st0"
  proof (rule ccontr)
    assume "\<not> reachable st0"
    with assms show False
      by (auto simp: get_user_orders_def ensure_db_connection_def get_database_def command_def
            orders_count_documents_def split: if_splits)
  qed
  let ?st2 = "(after_ensure st0)\<lparr>issued := issued (after_ensure st0) @ [Orders_count, Orders_find]\<rparr>"
  let ?w = "orders_window user_id lmt offset (stored_orders st0)"
  obtain res st3 where ol: "orders_loop rt ?w [] ?st2 = (res, st3)"
    by (cases "orders_loop rt ?w [] ?st2")
  from assms(3) ol obtain out where res: "res = Inr out"
    unfolding get_user_orders_unfold [OF assms(1,2) r] by (cases res) auto
  from orders_loop_Inr [OF ol [unfolded res]]
  have "out = map (spec_order_data rt (stored_products st0)) ?w" by simp
  with assms(3) ol res show ?thesis
    unfolding get_user_orders_unfold [OF assms(1,2) r] by simp
qed

text \<open>The page block of the order listing is computed from the number of orders of the user.\<close>

lemma get_user_orders_page:
  fixes rt :: "('oid, 'r::{zero,plus,times}) env"
  assumes "Query 10 (Some 1) (Some 100) limit_q = Inr lmt"
    and "Query 0 (Some 0) None offset_q = Inr offset"
    and "fst (get_user_orders rt user_id limit_q offset_q st0) = Inr resp"
  shows "orders_page resp = pagination offset lmt
     (int (length (filter (\<lambda>doc. order_userId doc = user_id) (stored_orders st0))))"
  using get_user_orders_Inr [OF assms] by simp

lemma get_user_orders_total:
  assumes "Query 10 (Some 1) (Some 100) limit_q = Inr lmt"
    and "Query 0 (Some 0) None offset_q = Inr offset"
    and "reachable st0"
    and "\<forall>order_doc \<in> set (orders_window user_id lmt offset (stored_orders st0)).
           \<forall>item \<in> set (order_items order_doc). ObjectId rt (item_productId item) \<noteq> None"
  shows "\<exists>resp. fst (get_user_orders rt user_id limit_q offset_q st0) = Inr resp"
proof -
  let ?st2 = "(after_ensure st0)\<lparr>issued := issued (after_ensure st0) @ [Orders_count, Orders_find]\<rparr>"
  let ?w = "orders_window user_id lmt offset (stored_orders st0)"
  have "reachable ?st2" using assms(3) by simp
  from orders_loop_total [OF this assms(4), of "[]"]
  obtain out where "fst (orders_loop rt ?w [] ?st2) = Inr out" by blast
  then show ?thesis
    unfolding get_user_orders_unfold [OF assms(1,2,3)]
    by (cases "orders_loop rt ?w [] ?st2") auto
qed

lemma get_user_orders_preserves:
  "stored_products (snd (get_user_orders rt user_id limit_q offset_q st0)) = stored_products st0
   \<and> stored_orders (snd (get_user_orders rt user_id limit_q offset_q st0)) = stored_orders st0"
proof -
  have e: "stored_products (snd (ensure_db_connection rt st0)) = stored_products st0
    \<and> stored_orders (snd (ensure_db_connection rt st0)) = stored_orders st0"
    by (simp add: ensure_db_connection_def get_database_def command_def split: prod.splits sum.splits)
  have l: "stored_products st3 = stored_products st2 \<and> stored_orders st3 = stored_orders st2"
    if "orders_loop rt ords [] st2 = (res, st3)" for ords st2 res st3
    using orders_loop_preserves [of rt ords "[]" st2] that by simp
  show ?thesis
    using e
    by (auto simp: get_user_orders_def orders_count_documents_def orders_find_def command_def
        split: sum.splits prod.splits dest!: l)
qed

text \<open>
  C5. For parameters within their bounds, a response of \<open>get_user_orders\<close> is the one of
  the specification: one entry for each order of the window, whose items are the line
  items that resolve to a stored product, in order, and whose total adds up, over these
  items, the price the product has in the store now times the quantity of the item. The
  items kept are exactly those that resolve, each with the product it resolves to; an
  item that does not resolve adds nothing to either. Such items are no error: when the
  store is reachable and the stored product ids are well-formed (as \<open>create_order\<close>
  leaves them), the handler does return a response. It changes neither collection.
\<close>

theorem get_user_orders_spec:
  fixes rt :: "('oid, 'r::{zero,plus,times}) env"
  assumes "Query 10 (Some 1) (Some 100) limit_q = Inr lmt"
    and "Query 0 (Some 0) None offset_q = Inr offset"
  shows "(\<forall>resp. fst (get_user_orders rt user_id limit_q offset_q st0) = Inr resp \<longrightarrow>
            resp =
              \<lparr>orders_data = map (spec_order_data rt (stored_products st0))
                                 (orders_window user_id lmt offset (stored_orders st0)),
               orders_page = pagination offset lmt
                 (int (length (filter (\<lambda>doc. order_userId doc = user_id) (stored_orders st0))))\<rparr>)
    \<and> (reachable st0
        \<and> (\<forall>order_doc \<in> set (orders_window user_id lmt offset (stored_orders st0)).
             \<forall>item \<in> set (order_items order_doc). ObjectId rt (item_productId item) \<noteq> None) \<longrightarrow>
          (\<exists>resp. fst (get_user_orders rt user_id limit_q offset_q st0) = Inr resp))
    \<and> (\<forall>its. map snd (resolvable_items rt (stored_products st0) its)
               = filter (\<lambda>item. resolve rt (stored_products st0) item \<noteq> None) its)
    \<and> (\<forall>its p item. (p, item) \<in> set (resolvable_items rt (stored_products st0) its) \<longrightarrow>
               resolve rt (stored_products st0) item = Some p)
    \<and> stored_products (snd (get_user_orders rt user_id limit_q offset_q st0)) = stored_products st0
    \<and> stored_orders (snd (get_user_orders rt user_id limit_q offset_q st0)) = stored_orders st0"
proof -
  have a: "\<forall>resp. fst (get_user_orders rt user_id limit_q offset_q st0) = Inr resp \<longrightarrow>
            resp =
              \<lparr>orders_data = map (spec_order_data rt (stored_products st0))
                                 (orders_window user_id lmt offset (stored_orders st0)),
               orders_page = pagination offset lmt
                 (int (length (filter (\<lambda>doc. order_userId doc = user_id) (stored_orders st0))))\<rparr>"
    using get_user_orders_Inr [OF assms] by blast
  have b: "reachable st0
        \<and> (\<forall>order_doc \<in> set (orders_window user_id lmt offset (stored_orders st0)).
             \<forall>item \<in> set (order_items order_doc). ObjectId rt (item_productId item) \<noteq> None) \<longrightarrow>
          (\<exists>resp. fst (get_user_orders rt user_id limit_q offset_q st0) = Inr resp)"
    using get_user_orders_total [OF assms] by blast
  have c: "\<forall>its p item. (p, item) \<in> set (resolvable_items rt (stored_products st0) its) \<longrightarrow>
               resolve rt (stored_products st0) item = Some p"
    using resolvable_items_fst by blast
  from a b c resolvable_items_snd [of rt "stored_products st0"]
    get_user_orders_preserves [of rt user_id limit_q offset_q st0]
  show ?thesis by blast
qed

lemmas order_simps =
  shop_with_order_def placed_order_def spec_order_data_def orders_window_def
  resolvable_items_def resolve_def spec_total_def spec_line_def pagination_def

theorem get_user_orders_spec_witness:
  "Query 10 (Some 1) (Some 100) None = Inr 10 \<and> Query 0 (Some 0) None None = Inr 0
   \<and> reachable shop_with_order
   \<and> resolve shop_env (stored_products shop_with_order) \<lparr>item_productId = gone_id, item_qty = 1\<rparr> = None
   \<and> fst (get_user_orders shop_env ''u1'' None None shop_with_order) =
       Inr \<lparr>orders_data =
              [\<lparr>order_data_id = order_id,
                order_data_items =
                  [\<lparr>productDetails = \<lparr>details_name = ''Shirt'', details_id = shirt_id\<rparr>, details_qty = 2\<rparr>,
                   \<lparr>productDetails = \<lparr>details_name = ''Cap'', details_id = cap_id\<rparr>, details_qty = 3\<rparr>],
                total = 5498 / 100\<rparr>],
            orders_page = \<lparr>next = None, limit = 10, previous = None\<rparr>\<rparr>"
proof -
  have q: "Query 10 (Some 1) (Some 100) None = Inr 10" "Query 0 (Some 0) None None = Inr 0"
    by (simp_all add: Query_def)
  have r: "reachable shop_with_order" by (simp add: shop_with_order_def shop_def)
  have g: "resolve shop_env (stored_products shop_with_order) \<lparr>item_productId = gone_id, item_qty = 1\<rparr> = None"
    by (simp add: order_simps shop_simps)
  have w: "\<forall>order_doc \<in> set (orders_window ''u1'' 10 0 (stored_orders shop_with_order)).
             \<forall>item \<in> set (order_items order_doc). ObjectId shop_env (item_productId item) \<noteq> None"
    by (simp add: order_simps shop_def shop_ids)
  from get_user_orders_spec [OF q, of shop_env "''u1''" shop_with_order] r w
  obtain resp where resp: "fst (get_user_orders shop_env ''u1'' None None shop_with_order) = Inr resp"
    by blast
  with get_user_orders_spec [OF q, of shop_env "''u1''" shop_with_order]
  have "resp =
      \<lparr>orders_data = map (spec_order_data shop_env (stored_products shop_with_order))
                         (orders_window ''u1'' 10 0 (stored_orders shop_with_order)),
       orders_page = pagination 0 10
         (int (length (filter (\<lambda>doc. order_userId doc = ''u1'') (stored_orders shop_with_order))))\<rparr>"
    by blast
  also have "\<dots> =
       \<lparr>orders_data =
              [\<lparr>order_data_id = order_id,
                order_data_items =
                  [\<lparr>productDetails = \<lparr>details_name = ''Shirt'', details_id = shirt_id\<rparr>, details_qty = 2\<rparr>,
                   \<lparr>productDetails = \<lparr>details_name = ''Cap'', details_id = cap_id\<rparr>, details_qty = 3\<rparr>],
                total = 5498 / 100\<rparr>],
            orders_page = \<lparr>next = None, limit = 10, previous = None\<rparr>\<rparr>"
    by (simp add: order_simps shop_simps)
  finally show ?thesis using q r g resp by simp
qed

subsection \<open>Product listing\<close>

text \<open>The substring test is what its name says.\<close>

lemma starts_with_iff: "starts_with p s \<longleftrightarrow> (\<exists>b. s = p @ b)"
  by (induction p s rule: starts_with.induct) auto

lemma contains_iff: "contains p s \<longleftrightarrow> (\<exists>a b. s = a @ p @ b)"
proof (induction s)
  case Nil
  then show ?case by simp
next
  case (Cons c cs)
  have "(\<exists>a b. c # cs = a @ p @ b) \<longleftrightarrow> (\<exists>b. c # cs = p @ b) \<or> (\<exists>a b. cs = a @ p @ b)"
  proof
    assume "\<exists>a b. c # cs = a @ p @ b"
    then obtain a b where ab: "c # cs = a @ p @ b" by blast
    show "(\<exists>b. c # cs = p @ b) \<or> (\<exists>a b. cs = a @ p @ b)"
    proof (cases a)
      case Nil
      with ab show ?thesis by auto
    next
      case (Cons x a')
      with ab have "cs = a' @ p @ b" by simp
      then show ?thesis by blast
    qed
  next
    assume "(\<exists>b. c # cs = p @ b) \<or> (\<exists>a b. cs = a @ p @ b)"
    then show "\<exists>a b. c # cs = a @ p @ b"
    proof
      assume "\<exists>b. c # cs = p @ b"
      then obtain b where "c # cs = [] @ p @ b" by auto
      then show ?thesis by blast
    next
      assume "\<exists>a b. cs = a @ p @ b"
      then obtain a b where "c # cs = (c # a) @ p @ b" by auto
      then show ?thesis by blast
    qed
  qed
  with Cons show ?case by (simp add: starts_with_iff)
qed

lemma list_products_unfold:
  assumes "Query 10 (Some 1) (Some 100) limit_q = Inr lmt"
    and "Query 0 (Some 0) None offset_q = Inr offset"
    and "reachable st0"
  shows "list_products rt name_q size_q limit_q offset_q st0 =
    (Inr \<lparr>products_data = map (product_data_of rt)
                             (listed_docs rt name_q size_q lmt offset (stored_products st0)),
          products_page = pagination offset lmt
            (int (length (filter (matches rt (build_filter_query name_q size_q)) (stored_products st0))))\<rparr>,
     (after_ensure st0)\<lparr>issued := issued (after_ensure st0) @ [Products_count, Products_find]\<rparr>)"
  using assms
  by (simp add: list_products_def ensure_ok command_reachable products_count_documents_def
        products_find_def listed_docs_def)

lemma list_products_Inr:
  assumes "Query 10 (Some 1) (Some 100) limit_q = Inr lmt"
    and "Query 0 (Some 0) None offset_q = Inr offset"
    and "fst (list_products rt name_q size_q limit_q offset_q st0) = Inr resp"
  shows "products_data resp = map (product_data_of rt)
                             (listed_docs rt name_q size_q lmt offset (stored_products st0))"
proof -
  have r: "reachable st0"
  proof (rule ccontr)
    assume "\<not> reachable st0"
    with assms show False
      by (auto simp: list_products_def ensure_db_connection_def get_database_def command_def
            products_count_documents_def split: if_splits)
  qed
  from assms(3) show ?thesis
    unfolding list_products_unfold [OF assms(1,2) r] by auto
qed

text \<open>The page block of the product listing is computed from the number of matching products.\<close>

lemma list_products_page:
  assumes "Query 10 (Some 1) (Some 100) limit_q = Inr lmt"
    and "Query 0 (Some 0) None offset_q = Inr offset"
    and "fst (list_products rt name_q size_q limit_q offset_q st0) = Inr resp"
  shows "products_page resp = pagination offset lmt
     (int (length (filter (matches rt (build_filter_query name_q size_q)) (stored_products st0))))"
proof -
  have r: "reachable st0"
  proof (rule ccontr)
    assume "\<not> reachable st0"
    with assms show False
      by (auto simp: list_products_def ensure_db_connection_def get_database_def command_def
            products_count_documents_def split: if_splits)
  qed
  from assms(3) show ?thesis
    unfolding list_products_unfold [OF assms(1,2) r] by auto
qed

lemma listed_docs_length: "length (listed_docs rt name_q size_q lmt offset docs) \<le> nat lmt"
  by (simp add: listed_docs_def)

lemma listed_docs_subset:
  "doc \<in> set (listed_docs rt name_q size_q lmt offset docs) \<Longrightarrow>
   doc \<in> set docs \<and> matches rt (build_filter_query name_q size_q) doc"
proof -
  assume "doc \<in> set (listed_docs rt name_q size_q lmt offset docs)"
  then have "doc \<in> set (drop (nat offset) (filter (matches rt (build_filter_query name_q size_q)) docs))"
    unfolding listed_docs_def by (rule in_set_takeD)
  then have "doc \<in> set (filter (matches rt (build_filter_query name_q size_q)) docs)"
    by (rule in_set_dropD)
  then show ?thesis by simp
qed

lemma listed_docs_all:
  assumes "int (length docs) \<le> lmt" and "offset = 0"
  shows "listed_docs rt name_q size_q lmt offset docs
     = filter (matches rt (build_filter_query name_q size_q)) docs"
proof -
  have "length (filter (matches rt (build_filter_query name_q size_q)) docs) \<le> length docs"
    by (rule length_filter_le)
  also have "\<dots> \<le> nat lmt" using assms(1) by simp
  finally show ?thesis using assms(2) by (simp add: listed_docs_def)
qed

lemma name_filter_plain:
  assumes "pat \<noteq> []" and "list_all plain_char pat" and "list_all plain_char (product_name doc)"
  shows "matches rt (build_filter_query (Some pat) None) doc
     \<longleftrightarrow> contains (map lower_char pat) (map lower_char (product_name doc))"
  using assms by (simp add: matches_def build_filter_query_def regex_search_i_def)

lemma shirt_facts:
  "list_all plain_char ''shirt''" "list_all plain_char ''Shirt''"
  "map lower_char ''shirt'' = ''shirt''" "map lower_char ''Shirt'' = ''shirt''"
  "contains ''shirt'' ''shirt''"
  by code_simp+

lemma shirt_regex: "regex_search_i rt ''shirt'' ''Shirt''"
  by (simp only: regex_search_i_def shirt_facts simp_thms if_True)

lemma shirt_matches:
  "matches rt (build_filter_query (Some ''shirt'') None)
     \<lparr>product_oid = new_id, product_name = ''Shirt'', product_price = p,
      product_sizes = szs, product_created_at = utcnow\<rparr>"
  by (simp add: matches_def build_filter_query_def shirt_regex)

lemma create_product_ok:
  assumes "reachable st0" and "new_id \<notin> set (map product_oid (stored_products st0))"
  shows "create_product rt new_id utcnow product st0 =
    (Inr \<lparr>id_str = str_oid rt new_id\<rparr>,
     (after_ensure st0)\<lparr>issued := issued (after_ensure st0) @ [Products_insert],
        stored_products := stored_products st0 @
          [\<lparr>product_oid = new_id, product_name = name product, product_price = price product,
            product_sizes = map (\<lambda>s. \<lparr>size_str = size_str s, quantity = quantity s\<rparr>) (sizes product),
            product_created_at = utcnow\<rparr>]\<rparr>)"
  using assms
  by (simp add: create_product_def ensure_ok command_reachable products_insert_one_def)

lemma size_filter_sound:
  assumes "s \<noteq> []" and "matches rt (build_filter_query name_q (Some s)) doc"
  shows "s \<in> set (map size_str (product_sizes doc))"
  using assms by (simp add: matches_def build_filter_query_def Let_def split: if_splits)

lemma shop_queries:
  "Query 10 (Some 1) (Some 100) None = Inr 10" "Query 0 (Some 0) None None = Inr 0"
  by (simp_all add: Query_def)

lemma shop_str_oid: "str_oid shop_env oid = oid"
  by (simp add: shop_env_def)

lemma shop_name_filter:
  "matches shop_env (build_filter_query (Some ''shirt'') None) shirt"
  "\<not> matches shop_env (build_filter_query (Some ''shirt'') None) cap"
  by code_simp+

lemma shop_listed_shirt:
  "listed_docs shop_env (Some ''shirt'') None 10 0 (stored_products shop) = [shirt]"
  by (simp add: listed_docs_def shop_def shop_name_filter)

lemma shop_listed_M:
  "listed_docs shop_env None (Some ''M'') 10 0 (stored_products shop) = [shirt]"
  by (simp add: listed_docs_def shop_def matches_def build_filter_query_def shirt_def cap_def)

text \<open>
  C6. For parameters within their bounds, the products of a response of \<open>list_products\<close>
  are the stored products that match the filter, in the order of the store, without the
  first \<open>offset\<close> of them and cut after \<open>limit\<close>, each projected to its id as a string,
  its name and its price; an entry of the response has these three fields and no field
  for sizes. With a reachable store the handler does return a response. On a non-empty
  pattern and a name of ASCII letters, digits and spaces, the name filter holds exactly
  when the pattern occurs in the name, both taken in lower case. A product created with
  the name \<open>Shirt\<close> is in the listing filtered by the name \<open>shirt\<close>, with its name and
  price, when the listing starts at offset 0 and the limit exceeds the number of products
  stored before.
\<close>

theorem list_products_spec:
  assumes "Query 10 (Some 1) (Some 100) limit_q = Inr lmt"
    and "Query 0 (Some 0) None offset_q = Inr offset"
  shows "(\<forall>resp. fst (list_products rt name_q size_q limit_q offset_q st0) = Inr resp \<longrightarrow>
            products_data resp = map (product_data_of rt)
              (listed_docs rt name_q size_q lmt offset (stored_products st0))
            \<and> length (products_data resp) \<le> nat lmt)
    \<and> (reachable st0 \<longrightarrow>
          (\<exists>resp. fst (list_products rt name_q size_q limit_q offset_q st0) = Inr resp))
    \<and> (\<forall>doc. product_data_of rt doc =
          \<lparr>data_id = str_oid rt (product_oid doc), data_name = product_name doc,
           data_price = product_price doc\<rparr>)
    \<and> (\<forall>pat doc. pat \<noteq> [] \<and> list_all plain_char pat \<and> list_all plain_char (product_name doc) \<longrightarrow>
          (matches rt (build_filter_query (Some pat) None) doc \<longleftrightarrow>
             (\<exists>a b. map lower_char (product_name doc) = a @ map lower_char pat @ b)))
    \<and> (reachable st0 \<and> new_id \<notin> set (map product_oid (stored_products st0))
        \<and> int (length (stored_products st0)) < lmt \<and> offset = 0 \<longrightarrow>
          (\<exists>st1 resp.
             create_product rt new_id utcnow \<lparr>name = ''Shirt'', price = p, sizes = szs\<rparr> st0
               = (Inr \<lparr>id_str = str_oid rt new_id\<rparr>, st1)
             \<and> fst (list_products rt (Some ''shirt'') None limit_q offset_q st1) = Inr resp
             \<and> \<lparr>data_id = str_oid rt new_id, data_name = ''Shirt'', data_price = p\<rparr>
                 \<in> set (products_data resp)))"
proof -
  have a: "\<forall>resp. fst (list_products rt name_q size_q limit_q offset_q st0) = Inr resp \<longrightarrow>
            products_data resp = map (product_data_of rt)
              (listed_docs rt name_q size_q lmt offset (stored_products st0))
            \<and> length (products_data resp) \<le> nat lmt"
  proof (intro allI impI)
    fix resp
    assume "fst (list_products rt name_q size_q limit_q offset_q st0) = Inr resp"
    from list_products_Inr [OF assms this] show "products_data resp = map (product_data_of rt)
              (listed_docs rt name_q size_q lmt offset (stored_products st0))
            \<and> length (products_data resp) \<le> nat lmt"
      by (simp add: listed_docs_length)
  qed
  have b: "reachable st0 \<longrightarrow>
          (\<exists>resp. fst (list_products rt name_q size_q limit_q offset_q st0) = Inr resp)"
  proof
    assume "reachable st0"
    from list_products_unfold [OF assms this, of rt name_q size_q] show
      "\<exists>resp. fst (list_products rt name_q size_q limit_q offset_q st0) = Inr resp"
      by simp
  qed
  have c: "\<forall>doc. product_data_of rt doc =
          \<lparr>data_id = str_oid rt (product_oid doc), data_name = product_name doc,
           data_price = product_price doc\<rparr>"
    by (simp add: product_data_of_def)
  have d: "\<forall>pat doc. pat \<noteq> [] \<and> list_all plain_char pat \<and> list_all plain_char (product_name doc) \<longrightarrow>
          (matches rt (build_filter_query (Some pat) None) doc \<longleftrightarrow>
             (\<exists>a b. map lower_char (product_name doc) = a @ map lower_char pat @ b))"
    using name_filter_plain [of _ _ rt] by (simp add: contains_iff)
  have e: "\<exists>st1 resp.
             create_product rt new_id utcnow \<lparr>name = ''Shirt'', price = p, sizes = szs\<rparr> st0
               = (Inr \<lparr>id_str = str_oid rt new_id\<rparr>, st1)
             \<and> fst (list_products rt (Some ''shirt'') None limit_q offset_q st1) = Inr resp
             \<and> \<lparr>data_id = str_oid rt new_id, data_name = ''Shirt'', data_price = p\<rparr>
                 \<in> set (products_data resp)"
    if r: "reachable st0" and fresh: "new_id \<notin> set (map product_oid (stored_products st0))"
      and small: "int (length (stored_products st0)) < lmt" and off: "offset = 0"
  proof -
    let ?doc = "\<lparr>product_oid = new_id, product_name = ''Shirt'', product_price = p,
        product_sizes = map (\<lambda>s. \<lparr>size_str = size_str s, quantity = quantity s\<rparr>) szs,
        product_created_at = utcnow\<rparr>"
    let ?st1 = "(after_ensure st0)\<lparr>issued := issued (after_ensure st0) @ [Products_insert],
        stored_products := stored_products st0 @ [?doc]\<rparr>"
    have cp: "create_product rt new_id utcnow \<lparr>name = ''Shirt'', price = p, sizes = szs\<rparr> st0
               = (Inr \<lparr>id_str = str_oid rt new_id\<rparr>, ?st1)"
      using create_product_ok [OF r fresh, of rt utcnow "\<lparr>name = ''Shirt'', price = p, sizes = szs\<rparr>"]
      by simp
    have r1: "reachable ?st1" using r by simp
    have len: "int (length (stored_products ?st1)) \<le> lmt" using small by simp
    have "?doc \<in> set (filter (matches rt (build_filter_query (Some ''shirt'') None)) (stored_products ?st1))"
      using shirt_matches [of rt new_id p _ utcnow] by simp
    then have "?doc \<in> set (listed_docs rt (Some ''shirt'') None lmt offset (stored_products ?st1))"
      using listed_docs_all [OF len off] by simp
    then have "product_data_of rt ?doc
        \<in> set (map (product_data_of rt) (listed_docs rt (Some ''shirt'') None lmt offset (stored_products ?st1)))"
      by (simp only: set_map) (rule imageI)
    then have "\<lparr>data_id = str_oid rt new_id, data_name = ''Shirt'', data_price = p\<rparr>
        \<in> set (products_data (projr (fst (list_products rt (Some ''shirt'') None limit_q offset_q ?st1))))"
      unfolding list_products_unfold [OF assms r1] by (simp add: product_data_of_def)
    moreover have "fst (list_products rt (Some ''shirt'') None limit_q offset_q ?st1)
        = Inr (projr (fst (list_products rt (Some ''shirt'') None limit_q offset_q ?st1)))"
      unfolding list_products_unfold [OF assms r1] by simp
    ultimately show ?thesis using cp by blast
  qed
  from a b c d e show ?thesis by blast
qed

theorem list_products_spec_witness:
  "Query 10 (Some 1) (Some 100) None = Inr 10 \<and> Query 0 (Some 0) None None = Inr 0
   \<and> reachable shop
   \<and> ''65a000000000000000000003'' \<notin> set (map product_oid (stored_products shop))
   \<and> int (length (stored_products shop)) < 10
   \<and> (\<exists>resp. fst (list_products shop_env (Some ''shirt'') None None None shop) = Inr resp
         \<and> products_data resp =
             [\<lparr>data_id = shirt_id, data_name = ''Shirt'', data_price = 1999 / 100\<rparr>])
   \<and> (\<exists>st1 resp.
         create_product shop_env ''65a000000000000000000003'' 9
             \<lparr>name = ''Shirt'', price = 25, sizes = [\<lparr>size_str = ''L'', quantity = 1\<rparr>]\<rparr> shop
           = (Inr \<lparr>id_str = ''65a000000000000000000003''\<rparr>, st1)
         \<and> fst (list_products shop_env (Some ''shirt'') None None None st1) = Inr resp
         \<and> \<lparr>data_id = ''65a000000000000000000003'', data_name = ''Shirt'', data_price = 25\<rparr>
             \<in> set (products_data resp))"
proof -
  note t = list_products_spec [OF shop_queries, where rt = shop_env and ?st0.0 = shop
      and name_q = "Some ''shirt''" and size_q = None
      and new_id = "''65a000000000000000000003''" and utcnow = 9 and p = 25
      and szs = "[\<lparr>size_str = ''L'', quantity = 1\<rparr>]"]
  have r: "reachable shop" by (simp add: shop_def)
  have f: "''65a000000000000000000003'' \<notin> set (map product_oid (stored_products shop))"
    by (simp add: shop_simps)
  have l: "int (length (stored_products shop)) < 10" by (simp add: shop_def)
  from t r obtain resp where resp: "fst (list_products shop_env (Some ''shirt'') None None None shop) = Inr resp"
    by blast
  with t have "products_data resp = map (product_data_of shop_env)
      (listed_docs shop_env (Some ''shirt'') None 10 0 (stored_products shop))"
    by blast
  then have d: "products_data resp =
      [\<lparr>data_id = shirt_id, data_name = ''Shirt'', data_price = 1999 / 100\<rparr>]"
    by (simp add: shop_listed_shirt product_data_of_def shirt_def shop_str_oid)
  from t r f l have "\<exists>st1 resp.
         create_product shop_env ''65a000000000000000000003'' 9
             \<lparr>name = ''Shirt'', price = 25, sizes = [\<lparr>size_str = ''L'', quantity = 1\<rparr>]\<rparr> shop
           = (Inr \<lparr>id_str = str_oid shop_env ''65a000000000000000000003''\<rparr>, st1)
         \<and> fst (list_products shop_env (Some ''shirt'') None None None st1) = Inr resp
         \<and> \<lparr>data_id = str_oid shop_env ''65a000000000000000000003'', data_name = ''Shirt'', data_price = 25\<rparr>
             \<in> set (products_data resp)"
    by blast
  then have e: "\<exists>st1 resp.
         create_product shop_env ''65a000000000000000000003'' 9
             \<lparr>name = ''Shirt'', price = 25, sizes = [\<lparr>size_str = ''L'', quantity = 1\<rparr>]\<rparr> shop
           = (Inr \<lparr>id_str = ''65a000000000000000000003''\<rparr>, st1)
         \<and> fst (list_products shop_env (Some ''shirt'') None None None st1) = Inr resp
         \<and> \<lparr>data_id = ''65a000000000000000000003'', data_name = ''Shirt'', data_price = 25\<rparr>
             \<in> set (products_data resp)"
    by (simp add: shop_env_def)
  from shop_queries r f l resp d e show ?thesis by blast
qed

text \<open>
  C7, as the code has it. For parameters within their bounds and a size filter that is
  not the empty string, the products of a response are the projections of the listed
  documents, and every listed document is a stored product whose sizes hold an entry
  with exactly that size string; with a reachable store the handler does return a
  response. So a product whose only size is \<open>S\<close> is not listed under the size \<open>M\<close>.
\<close>

theorem list_products_size_filter:
  assumes "Query 10 (Some 1) (Some 100) limit_q = Inr lmt"
    and "Query 0 (Some 0) None offset_q = Inr offset"
    and "s \<noteq> []"
  shows "(\<forall>resp. fst (list_products rt name_q (Some s) limit_q offset_q st0) = Inr resp \<longrightarrow>
            products_data resp = map (product_data_of rt)
              (listed_docs rt name_q (Some s) lmt offset (stored_products st0)))
    \<and> (\<forall>doc \<in> set (listed_docs rt name_q (Some s) lmt offset (stored_products st0)).
          doc \<in> set (stored_products st0) \<and> s \<in> set (map size_str (product_sizes doc)))
    \<and> (reachable st0 \<longrightarrow>
          (\<exists>resp. fst (list_products rt name_q (Some s) limit_q offset_q st0) = Inr resp))"
proof -
  have a: "\<forall>resp. fst (list_products rt name_q (Some s) limit_q offset_q st0) = Inr resp \<longrightarrow>
            products_data resp = map (product_data_of rt)
              (listed_docs rt name_q (Some s) lmt offset (stored_products st0))"
    using list_products_Inr [OF assms(1,2)] by blast
  have b: "\<forall>doc \<in> set (listed_docs rt name_q (Some s) lmt offset (stored_products st0)).
          doc \<in> set (stored_products st0) \<and> s \<in> set (map size_str (product_sizes doc))"
    using listed_docs_subset size_filter_sound [OF assms(3)] by blast
  have c: "reachable st0 \<longrightarrow>
          (\<exists>resp. fst (list_products rt name_q (Some s) limit_q offset_q st0) = Inr resp)"
  proof
    assume "reachable st0"
    from list_products_unfold [OF assms(1,2) this, of rt name_q "Some s"] show
      "\<exists>resp. fst (list_products rt name_q (Some s) limit_q offset_q st0) = Inr resp"
      by simp
  qed
  from a b c show ?thesis by blast
qed

theorem list_products_size_filter_witness:
  "Query 10 (Some 1) (Some 100) None = Inr 10 \<and> Query 0 (Some 0) None None = Inr 0
   \<and> ''M'' \<noteq> [] \<and> reachable shop
   \<and> (\<exists>resp. fst (list_products shop_env None (Some ''M'') None None shop) = Inr resp
         \<and> products_data resp =
             [\<lparr>data_id = shirt_id, data_name = ''Shirt'', data_price = 1999 / 100\<rparr>])
   \<and> cap \<in> set (stored_products shop)
   \<and> map size_str (product_sizes cap) = [''S'']
   \<and> cap \<notin> set (listed_docs shop_env None (Some ''M'') 10 0 (stored_products shop))"
proof -
  have m: "''M'' \<noteq> []" by simp
  note t = list_products_size_filter [OF shop_queries m, where rt = shop_env and ?st0.0 = shop
      and name_q = None]
  have r: "reachable shop" by (simp add: shop_def)
  from t r obtain resp where resp: "fst (list_products shop_env None (Some ''M'') None None shop) = Inr resp"
    by blast
  with t have "products_data resp = map (product_data_of shop_env)
      (listed_docs shop_env None (Some ''M'') 10 0 (stored_products shop))"
    by blast
  then have d: "products_data resp =
      [\<lparr>data_id = shirt_id, data_name = ''Shirt'', data_price = 1999 / 100\<rparr>]"
    by (simp add: shop_listed_M product_data_of_def shirt_def shop_str_oid)
  have c: "cap \<in> set (stored_products shop)" "map size_str (product_sizes cap) = [''S'']"
    by (simp_all add: shop_def cap_def)
  from t c(2) have x: "cap \<notin> set (listed_docs shop_env None (Some ''M'') 10 0 (stored_products shop))"
    by auto
  from shop_queries m r resp d c x show ?thesis by blast
qed

text \<open>
  C7 as stated covers every listing with a size filter. With the empty string as the
  size filter (\<^verbatim>\<open>?size=\<close>) the test \<^verbatim>\<open>if size:\<close> fails, no filter is set, and both
  products are listed although neither has an entry whose size is the empty string.
\<close>

theorem list_products_size_filter_counterexample:
  "fst (list_products shop_env None (Some []) None None shop) =
     Inr \<lparr>products_data =
            [\<lparr>data_id = shirt_id, data_name = ''Shirt'', data_price = 1999 / 100\<rparr>,
             \<lparr>data_id = cap_id, data_name = ''Cap'', data_price = 5\<rparr>],
          products_page = \<lparr>next = None, limit = 10, previous = None\<rparr>\<rparr>
   \<and> [] \<notin> set (map size_str (product_sizes shirt))
   \<and> [] \<notin> set (map size_str (product_sizes cap))"
proof -
  have r: "reachable shop" by (simp add: shop_def)
  show ?thesis
    unfolding list_products_unfold [OF shop_queries r]
    by (simp add: listed_docs_def matches_def build_filter_query_def product_data_of_def
          pagination_def shop_def shirt_def cap_def shop_env_def)
qed

end
